theory Spec2Isabelle
  imports Complex_Main "HOL-Library.Word"
begin

unbundle bit_operations_syntax

section \<open>SHAC decoder and binaural renderer\<close>

text \<open>
  A shallow embedding of the SHAC container decoder (class SHACDecoder) and of the
  renderer (classes AudioBufferPool and SpatialAudioEngine). JavaScript numbers are
  idealised: finite values are reals, so the rounding of doubles and of Float32Array
  stores is left out, and integers that index buffers are naturals.
\<close>

subsection \<open>Typed arrays\<close>

text \<open>
  A store into a typed array at an index outside of it is ignored by JavaScript.
\<close>

definition ta_store :: "'a list \<Rightarrow> nat \<Rightarrow> 'a \<Rightarrow> 'a list" where
  "ta_store xs i v = (if i < length xs then xs[i := v] else xs)"

subsection \<open>Rotation matrices (SHACDecoder.computeRotationMatrix)\<close>

text \<open>
  The matrix is a Float32Array of size * size entries, row-major, zero after
  allocation. The three helpers write at fixed strides (4 for the first order, 16 for
  the second and third), whatever the size of the matrix is.
\<close>

definition applyFirstOrderRotation :: "real list \<Rightarrow> real \<Rightarrow> real \<Rightarrow> real \<Rightarrow> real list" where
  "applyFirstOrderRotation matrix yaw pitch roll =
     (let cy = cos yaw; sy = sin yaw; cp = cos pitch; sp = sin pitch;
          m1 = ta_store matrix (1*4 + 1) (cy * cp);
          m2 = ta_store m1 (1*4 + 2) (sy * sp);
          m3 = ta_store m2 (1*4 + 3) (- sy * cp);
          m4 = ta_store m3 (2*4 + 1) (- sy);
          m5 = ta_store m4 (2*4 + 2) cp;
          m6 = ta_store m5 (2*4 + 3) cy;
          m7 = ta_store m6 (3*4 + 1) (sy * cp);
          m8 = ta_store m7 (3*4 + 2) (- cy * sp);
          m9 = ta_store m8 (3*4 + 3) (cy * cp)
      in m9)"

definition applySecondOrderRotation :: "real list \<Rightarrow> real \<Rightarrow> real \<Rightarrow> real \<Rightarrow> real list" where
  "applySecondOrderRotation matrix yaw pitch roll =
     (let cy = cos yaw; cp = cos pitch; c2y = cos (2 * yaw);
          base = 4;
          m1 = ta_store matrix ((base+0)*16 + (base+0)) (c2y * cp * cp);
          m2 = ta_store m1 ((base+1)*16 + (base+1)) (cy * cp);
          m3 = ta_store m2 ((base+2)*16 + (base+2)) ((3 * cp * cp - 1) / 2);
          m4 = ta_store m3 ((base+3)*16 + (base+3)) (cy * cp);
          m5 = ta_store m4 ((base+4)*16 + (base+4)) (c2y * cp * cp)
      in m5)"

definition applyThirdOrderRotation :: "real list \<Rightarrow> real \<Rightarrow> real \<Rightarrow> real \<Rightarrow> real list" where
  "applyThirdOrderRotation matrix yaw pitch roll =
     (let cp = cos pitch; base = 9 in
      fold (\<lambda>m mat.
              let idx = nat (base + m + 3);
                  cmy = cos (real_of_int m * yaw)
              in ta_store mat (idx * 16 + idx) (cmy * cp ^ nat \<bar>m\<bar>))
           [-3, -2, -1, 0, 1, 2, 3] matrix)"

definition computeRotationMatrix :: "nat \<Rightarrow> real \<Rightarrow> real \<Rightarrow> real \<Rightarrow> real list" where
  "computeRotationMatrix order yaw pitch roll =
     (let sz = (order + 1) * (order + 1);
          matrix = replicate (sz * sz) 0;
          m0 = fold (\<lambda>i mat. ta_store mat (i * sz + i) 1) [0..<sz] matrix;
          m1 = (if order \<ge> 1 then applyFirstOrderRotation m0 yaw pitch roll else m0);
          m2 = (if order \<ge> 2 then applySecondOrderRotation m1 yaw pitch roll else m1);
          m3 = (if order \<ge> 3 then applyThirdOrderRotation m2 yaw pitch roll else m2)
      in m3)"

text \<open>The identity matrix of a given size, row-major, that the specification names.\<close>

definition identityMatrix :: "nat \<Rightarrow> real list" where
  "identityMatrix n =
     concat (map (\<lambda>i. map (\<lambda>j. if i = j then 1 else 0) [0..<n]) [0..<n])"

subsection \<open>Errors and numbers\<close>

text \<open>
  Every exception the modelled code can raise. \<open>RangeError\<close> is what a DataView
  read or a typed-array view outside the buffer raises, \<open>TypeError\<close> a property
  read on \<open>undefined\<close> or \<open>null\<close>, \<open>NotSupportedError\<close> what
  AudioContext.createBuffer raises. The others are the \<open>Error\<close> objects the
  code creates itself, one constructor for each message; \<open>DecodeError\<close> is the
  wrapper of SHACDecoder.decode ("SHAC decode error: " followed by the message).
\<close>

datatype error =
    RangeError
  | TypeError
  | NotSupportedError
  | BadMagic
  | UnsupportedVersion nat
  | InvalidAudioData
  | NoSamples
  | DecodeError error

text \<open>
  A JavaScript number: a real, or a value that is not finite (NaN and the two
  infinities, which this model does not tell apart). A sum or a product with an
  operand that is not finite is not finite.
\<close>

datatype jsnum = Finite real | NotFinite

fun jsnum_add :: "jsnum \<Rightarrow> jsnum \<Rightarrow> jsnum" where
  "jsnum_add (Finite a) (Finite b) = Finite (a + b)"
| "jsnum_add _ _ = NotFinite"

fun jsnum_mul :: "jsnum \<Rightarrow> jsnum \<Rightarrow> jsnum" where
  "jsnum_mul (Finite a) (Finite b) = Finite (a * b)"
| "jsnum_mul _ _ = NotFinite"

text \<open>A read of a typed array: outside of it the value is \<open>undefined\<close>,
  which arithmetic turns into NaN.\<close>

definition ta_load :: "jsnum list \<Rightarrow> nat \<Rightarrow> jsnum" where
  "ta_load xs i = (if i < length xs then xs ! i else NotFinite)"

text \<open>Running a fallible step over a list, in order; the first error is the result.\<close>

fun traverse :: "('a \<Rightarrow> error + 'b) \<Rightarrow> 'a list \<Rightarrow> error + 'b list" where
  "traverse f [] = Inr []"
| "traverse f (x # xs) =
     (case f x of
        Inl e \<Rightarrow> Inl e
      | Inr y \<Rightarrow> (case traverse f xs of Inl e \<Rightarrow> Inl e | Inr ys \<Rightarrow> Inr (y # ys)))"

text \<open>Sequencing: an exception of the first step ends the computation.\<close>

definition bind_err :: "error + 'a \<Rightarrow> ('a \<Rightarrow> error + 'b) \<Rightarrow> error + 'b" where
  "bind_err r f = (case r of Inl e \<Rightarrow> Inl e | Inr v \<Rightarrow> f v)"

subsection \<open>The byte buffer (ArrayBuffer, DataView, typed-array views)\<close>

type_synonym byte = "8 word"
type_synonym buffer = "byte list"

definition getUint8 :: "buffer \<Rightarrow> nat \<Rightarrow> error + nat" where
  "getUint8 buf off = (if off + 1 \<le> length buf then Inr (unat (buf ! off)) else Inl RangeError)"

definition getInt8 :: "buffer \<Rightarrow> nat \<Rightarrow> error + int" where
  "getInt8 buf off = (if off + 1 \<le> length buf then Inr (sint (buf ! off)) else Inl RangeError)"

text \<open>The multi-byte reads are the little-endian ones (second argument \<open>true\<close>).\<close>

definition getUint16 :: "buffer \<Rightarrow> nat \<Rightarrow> error + nat" where
  "getUint16 buf off =
     (if off + 2 \<le> length buf
      then Inr (unat (buf ! off) + 256 * unat (buf ! (off + 1)))
      else Inl RangeError)"

definition getUint32 :: "buffer \<Rightarrow> nat \<Rightarrow> error + nat" where
  "getUint32 buf off =
     (if off + 4 \<le> length buf
      then Inr (unat (buf ! off) + 256 * unat (buf ! (off + 1))
                + 65536 * unat (buf ! (off + 2)) + 16777216 * unat (buf ! (off + 3)))
      else Inl RangeError)"

text \<open>
  An IEEE 754 single from its 32 bits: sign, 8 bits of exponent, 23 bits of fraction.
\<close>

definition float32_of_bits :: "32 word \<Rightarrow> jsnum" where
  "float32_of_bits w =
     (let sgn = (if bit w 31 then - 1 else 1 :: real);
          e = unat (drop_bit 23 w AND 255);
          f = unat (w AND 8388607)
      in if e = 255 then NotFinite
         else if e = 0 then Finite (sgn * real f / 2 ^ 149)
         else Finite (sgn * real (8388608 + f) * 2 ^ e / 2 ^ 150))"

definition word32_le :: "buffer \<Rightarrow> nat \<Rightarrow> 32 word" where
  "word32_le buf off =
     word_of_nat (unat (buf ! off) + 256 * unat (buf ! (off + 1))
                  + 65536 * unat (buf ! (off + 2)) + 16777216 * unat (buf ! (off + 3)))"

definition getFloat32 :: "buffer \<Rightarrow> nat \<Rightarrow> error + jsnum" where
  "getFloat32 buf off =
     (if off + 4 \<le> length buf then Inr (float32_of_bits (word32_le buf off))
      else Inl RangeError)"

text \<open>\<open>new Uint8Array(buffer, offset, length)\<close>: a view, or a RangeError when it
  does not fit.\<close>

definition Uint8Array_view :: "buffer \<Rightarrow> nat \<Rightarrow> nat \<Rightarrow> error + byte list" where
  "Uint8Array_view buf off len =
     (if off + len \<le> length buf then Inr (take len (drop off buf)) else Inl RangeError)"

text \<open>\<open>new Int16Array(buffer, offset, length)\<close>: the offset must be a multiple of
  2 and the view must fit. The elements are read in the byte order of the platform,
  taken to be little-endian.\<close>

definition Int16Array_view :: "buffer \<Rightarrow> nat \<Rightarrow> nat \<Rightarrow> error + int list" where
  "Int16Array_view buf off len =
     (if off mod 2 \<noteq> 0 \<or> off + 2 * len > length buf then Inl RangeError
      else Inr (map (\<lambda>i. sint (word_cat (buf ! (off + 2 * i + 1)) (buf ! (off + 2 * i)) :: 16 word))
                    [0..<len]))"

definition Float32Array_view :: "buffer \<Rightarrow> nat \<Rightarrow> nat \<Rightarrow> error + jsnum list" where
  "Float32Array_view buf off len =
     (if off mod 4 \<noteq> 0 \<or> off + 4 * len > length buf then Inl RangeError
      else Inr (map (\<lambda>i. float32_of_bits (word32_le buf (off + 4 * i))) [0..<len]))"

text \<open>TextDecoder.decode never fails. The text is kept as its bytes: the code only
  looks for ASCII characters in it, and UTF-8 keeps those apart from all others.\<close>

definition TextDecoder_decode :: "byte list \<Rightarrow> string" where
  "TextDecoder_decode bs = map (\<lambda>b. char_of (unat b)) bs"

subsection \<open>Header and layer index (SHACDecoder.readHeader, buildLayerIndex)\<close>

record header =
  version :: nat
  order :: nat
  n_channels :: nat
  sample_rate :: nat
  bit_depth :: nat
  n_samples :: nat
  n_layers :: nat
  normalization :: nat

definition MAGIC :: "byte list" where
  "MAGIC = [0x53, 0x48, 0x41, 0x43]"

definition readHeader :: "buffer \<Rightarrow> error + header" where
  "readHeader buf =
     bind_err (Uint8Array_view buf 0 4) (\<lambda>magic.
     if magic \<noteq> MAGIC then Inl BadMagic else
     bind_err (getUint16 buf 4) (\<lambda>v.
     bind_err (getUint16 buf 6) (\<lambda>ord.
     bind_err (getUint16 buf 8) (\<lambda>nch.
     bind_err (getUint32 buf 10) (\<lambda>rate.
     bind_err (getUint32 buf 14) (\<lambda>depth.
     bind_err (getUint32 buf 18) (\<lambda>ns.
     bind_err (getUint16 buf 22) (\<lambda>nl.
     bind_err (getUint16 buf 24) (\<lambda>nrm.
     if v \<noteq> 1 then Inl (UnsupportedVersion v)
     else Inr \<lparr>version = v, order = ord, n_channels = nch, sample_rate = rate,
               bit_depth = depth, n_samples = ns, n_layers = nl,
               normalization = nrm\<rparr>)))))))))"

record layerInfo =
  layerId :: string
  headerOffset :: nat
  dataOffset :: nat
  dataSize :: nat
  metadataLength :: nat

text \<open>
  The loop of buildLayerIndex; the first argument counts the layers still to index,
  \<open>offset\<close> and \<open>layerIndex\<close> are the loop's variables. Only the two length
  fields and the id bytes are read; the metadata and the audio payload are skipped by
  adding their sizes to the offset.
\<close>

fun buildLayerIndex_loop ::
  "nat \<Rightarrow> header \<Rightarrow> buffer \<Rightarrow> nat \<Rightarrow> layerInfo list \<Rightarrow> error + layerInfo list" where
  "buildLayerIndex_loop 0 hdr buf offset layerIndex = Inr layerIndex"
| "buildLayerIndex_loop (Suc k) hdr buf offset layerIndex =
     bind_err (getUint16 buf offset) (\<lambda>idLength.
     bind_err (getUint32 buf (offset + 2)) (\<lambda>metaLength.
     bind_err (Uint8Array_view buf (offset + 2 + 4) idLength) (\<lambda>idBytes.
     let offset' = offset + 2 + 4 + idLength + metaLength;
         samplesPerChannel = n_samples hdr;
         bytesPerSample = (if bit_depth hdr = 16 then 2 else 4);
         audioDataSize = n_channels hdr * samplesPerChannel * bytesPerSample
     in buildLayerIndex_loop k hdr buf (offset' + audioDataSize)
          (layerIndex @
           [\<lparr>layerId = TextDecoder_decode idBytes,
             headerOffset = offset' - metaLength - idLength - 6,
             dataOffset = offset',
             dataSize = audioDataSize,
             metadataLength = metaLength\<rparr>]))))"

definition buildLayerIndex :: "header \<Rightarrow> buffer \<Rightarrow> error + layerInfo list" where
  "buildLayerIndex hdr buf = buildLayerIndex_loop (n_layers hdr) hdr buf 26 []"

subsection \<open>Audio payload (SHACDecoder.readAudioDataOptimized)\<close>

text \<open>
  The 16-bit sample the byte-wise path computes: \<open>(high << 8) | low\<close> on the signed
  high byte and the unsigned low byte.
\<close>

definition readSample16 :: "buffer \<Rightarrow> nat \<Rightarrow> error + jsnum" where
  "readSample16 buf pos =
     bind_err (getUint8 buf pos) (\<lambda>low.
     bind_err (getInt8 buf (pos + 1)) (\<lambda>high.
     let v = (push_bit 8 high) OR (int low) in
     Inr (Finite (real_of_int v / 32767))))"

definition readAudioDataOptimized ::
  "buffer \<Rightarrow> nat \<Rightarrow> nat \<Rightarrow> nat \<Rightarrow> nat \<Rightarrow> error + jsnum list list" where
  "readAudioDataOptimized buf offset numChannels numSamples bitDepth =
     (let totalSamples = numChannels * numSamples in
      if bitDepth = 16 then
        if offset mod 2 \<noteq> 0 then
          traverse (\<lambda>ch. traverse (\<lambda>s. readSample16 buf (offset + (ch * numSamples + s) * 2))
                                    [0..<numSamples])
                   [0..<numChannels]
        else
          bind_err (Int16Array_view buf offset totalSamples) (\<lambda>int16Data.
          Inr (map (\<lambda>ch. map (\<lambda>s. Finite (real_of_int (int16Data ! (ch * numSamples + s)) / 32767))
                              [0..<numSamples])
                   [0..<numChannels]))
      else
        if offset mod 4 \<noteq> 0 then
          traverse (\<lambda>ch. traverse (\<lambda>s. getFloat32 buf (offset + (ch * numSamples + s) * 4))
                                    [0..<numSamples])
                   [0..<numChannels]
        else
          bind_err (Float32Array_view buf offset totalSamples) (\<lambda>floatData.
          Inr (map (\<lambda>ch. map (\<lambda>s. floatData ! (ch * numSamples + s)) [0..<numSamples])
                   [0..<numChannels])))"

subsection \<open>Layer metadata (SHACDecoder.readLayerOptimized)\<close>

text \<open>The values JSON.parse returns.\<close>

datatype json =
    JNull
  | JBool bool
  | JNumber real
  | JString string
  | JArray "json list"
  | JObject "(string \<times> json) list"

text \<open>
  \<open>str.replace(/pat/g, rep)\<close> for a pattern that is a plain, non-empty text:
  every occurrence, leftmost first, without overlaps.
\<close>

function replace_all :: "string \<Rightarrow> string \<Rightarrow> string \<Rightarrow> string" where
  "replace_all pat rep [] = []"
| "replace_all pat rep (c # cs) =
     (if pat \<noteq> [] \<and> take (length pat) (c # cs) = pat
      then rep @ replace_all pat rep (drop (length pat) (c # cs))
      else c # replace_all pat rep cs)"
  by pat_completeness auto
termination
  by (relation "measure (\<lambda>(pat, rep, s). length s)") (auto simp: Suc_le_eq)

definition pythonToJson :: "string \<Rightarrow> string" where
  "pythonToJson metadataStr =
     replace_all ''None'' ''null''
       (replace_all ''False'' ''false''
         (replace_all ''True'' ''true''
           (replace_all '')'' '']''
             (replace_all ''('' ''[''
               (replace_all [CHR 0x27] [CHR 0x22] metadataStr)))))"

definition defaultMetadata :: json where
  "defaultMetadata =
     JObject [(''position'', JArray [JNumber 0, JNumber 0, JNumber 0]), (''gain'', JNumber 1)]"

text \<open>
  The two nested try blocks. JSON.parse is the platform's: it is a parameter, \<open>None\<close>
  where it raises a SyntaxError.
\<close>

definition parseMetadata :: "(string \<Rightarrow> json option) \<Rightarrow> string \<Rightarrow> json" where
  "parseMetadata JSON_parse metadataStr =
     (case JSON_parse metadataStr of
        Some metadata \<Rightarrow> metadata
      | None \<Rightarrow>
          (case JSON_parse (pythonToJson metadataStr) of
             Some metadata \<Rightarrow> metadata
           | None \<Rightarrow> defaultMetadata))"

record layerData =
  metadata :: json
  audioData :: "jsnum list list"
  samplesPerChannel :: nat

definition readLayerOptimized ::
  "(string \<Rightarrow> json option) \<Rightarrow> header \<Rightarrow> buffer \<Rightarrow> layerInfo \<Rightarrow> error + (string \<times> layerData)" where
  "readLayerOptimized JSON_parse hdr buf info =
     bind_err (getUint16 buf (headerOffset info)) (\<lambda>idLength.
     bind_err (Uint8Array_view buf (headerOffset info + 2 + 4) idLength) (\<lambda>idBytes.
     bind_err (Uint8Array_view buf (headerOffset info + 2 + 4 + idLength) (metadataLength info))
       (\<lambda>metadataBytes.
     let metadataStr = TextDecoder_decode metadataBytes;
         meta = parseMetadata JSON_parse metadataStr
     in bind_err (readAudioDataOptimized buf (dataOffset info) (n_channels hdr) (n_samples hdr)
                    (bit_depth hdr)) (\<lambda>audio.
        Inr (TextDecoder_decode idBytes,
             \<lparr>metadata = meta, audioData = audio, samplesPerChannel = n_samples hdr\<rparr>)))))"

text \<open>\<open>Map.set\<close>: a known key keeps its place and gets the new value, a new key goes
  to the end.\<close>

fun map_set :: "('k \<times> 'v) list \<Rightarrow> 'k \<Rightarrow> 'v \<Rightarrow> ('k \<times> 'v) list" where
  "map_set [] k v = [(k, v)]"
| "map_set ((k', v') # kvs) k v = (if k' = k then (k, v) # kvs else (k', v') # map_set kvs k v)"

definition readLayersOptimized ::
  "(string \<Rightarrow> json option) \<Rightarrow> header \<Rightarrow> buffer \<Rightarrow> layerInfo list
     \<Rightarrow> error + (string \<times> layerData) list" where
  "readLayersOptimized JSON_parse hdr buf idx =
     bind_err (traverse (readLayerOptimized JSON_parse hdr buf) idx) (\<lambda>results.
     Inr (fold (\<lambda>(k, v) ls. map_set ls k v) results []))"

record decoded =
  dec_header :: header
  layers :: "(string \<times> layerData) list"
  layerNames :: "string list"
  layerIndex :: "layerInfo list"

text \<open>The body of the try block of decode, and decode with its catch clause.\<close>

definition decode_body :: "(string \<Rightarrow> json option) \<Rightarrow> buffer \<Rightarrow> error + decoded" where
  "decode_body JSON_parse arrayBuffer =
     bind_err (readHeader arrayBuffer) (\<lambda>hdr.
     bind_err (buildLayerIndex hdr arrayBuffer) (\<lambda>idx.
     bind_err (readLayersOptimized JSON_parse hdr arrayBuffer idx) (\<lambda>ls.
     Inr \<lparr>dec_header = hdr, layers = ls, layerNames = map fst ls, layerIndex = idx\<rparr>)))"

definition decode :: "(string \<Rightarrow> json option) \<Rightarrow> buffer \<Rightarrow> error + decoded" where
  "decode JSON_parse arrayBuffer =
     (case decode_body JSON_parse arrayBuffer of
        Inl e \<Rightarrow> Inl (DecodeError e)
      | Inr result \<Rightarrow> Inr result)"

subsection \<open>Spherical harmonics of the decoder\<close>

text \<open>
  precomputeNormalizationFactors: the table of factorials up to \<open>2 * maxOrder + 1\<close>,
  then one object of factors for each degree, keyed by the index \<open>m\<close>. A degree or an
  index that was not stored is \<open>undefined\<close> (\<open>None\<close>).
\<close>

definition factorials :: "nat \<Rightarrow> real list" where
  "factorials maxOrder =
     fold (\<lambda>i fs. fs @ [fs ! (i - 1) * real i]) [1..<2 * maxOrder + 2] [1]"

definition precomputeNormalizationFactors :: "nat \<Rightarrow> nat \<Rightarrow> (int \<Rightarrow> real option) option" where
  "precomputeNormalizationFactors maxOrder =
     fold (\<lambda>l factors.
             factors(l \<mapsto>
               fold (\<lambda>m row.
                       let absM = nat \<bar>m\<bar>;
                           nrm = sqrt (real (2 * l + 1) * (factorials maxOrder ! (l - absM))
                                       / (4 * pi * (factorials maxOrder ! (l + absM))))
                       in row(m \<mapsto> nrm))
                    [- int l..int l] Map.empty))
          [0..<maxOrder + 1] Map.empty"

text \<open>The constructor stores the factors for orders up to 3.\<close>

definition normalizationFactors :: "nat \<Rightarrow> (int \<Rightarrow> real option) option" where
  "normalizationFactors = precomputeNormalizationFactors 3"

text \<open>
  computeAssociatedLegendre: a table of \<open>order + 1\<close> rows of \<open>order + 1\<close> zeros,
  filled by three loops. \<open>P[l][m]\<close> is \<open>table_get P l m\<close>.
\<close>

definition table_get :: "real list list \<Rightarrow> nat \<Rightarrow> nat \<Rightarrow> real" where
  "table_get P l m = P ! l ! m"

definition table_set :: "real list list \<Rightarrow> nat \<Rightarrow> nat \<Rightarrow> real \<Rightarrow> real list list" where
  "table_set P l m v = P[l := (P ! l)[m := v]]"

definition computeAssociatedLegendre :: "nat \<Rightarrow> real \<Rightarrow> real list list" where
  "computeAssociatedLegendre ord x =
     (let P0 = table_set (replicate (ord + 1) (replicate (ord + 1) 0)) 0 0 1;
          P1 = (if ord > 0 then
                  let somx2 = sqrt ((1 - x) * (1 + x)) in
                  fst (fold (\<lambda>m (P, fct).
                               (table_set P m m (- table_get P (m - 1) (m - 1) * fct * somx2),
                                fct + 2))
                            [1..<ord + 1] (P0, 1))
                else P0);
          P2 = fold (\<lambda>m P. table_set P (m + 1) m (x * real (2 * m + 1) * table_get P m m))
                    [0..<ord] P1;
          P3 = fold (\<lambda>m P.
                       fold (\<lambda>l P.
                               table_set P l m
                                 ((real (2 * l - 1) * x * table_get P (l - 1) m
                                   - real (l + m - 1) * table_get P (l - 2) m) / real (l - m)))
                            [m + 2..<ord + 1] P)
                    [0..<ord - 1] P2
      in P3)"

text \<open>
  The cache key: the order and the two angles printed by \<open>toFixed(3)\<close>, that is a
  sign and the number of thousandths nearest to the absolute value (a tie goes up).
\<close>

definition toFixed3 :: "real \<Rightarrow> bool \<times> int" where
  "toFixed3 x = (x < 0, \<lfloor>\<bar>x\<bar> * 1000 + 1 / 2\<rfloor>)"

type_synonym shKey = "nat \<times> (bool \<times> int) \<times> (bool \<times> int)"
type_synonym shCache = "(shKey \<times> jsnum list) list"

text \<open>The cache never evicts: its capacity is \<open>Infinity\<close>.\<close>

definition SH_CACHE_SIZE :: "nat option" where
  "SH_CACHE_SIZE = None"

text \<open>
  The coefficient of one pair \<open>(l, m)\<close>: a TypeError when the degree has no factors
  (\<open>undefined[m]\<close>), NaN when only the index has none.
\<close>

definition shCoefficient ::
  "(nat \<Rightarrow> (int \<Rightarrow> real option) option) \<Rightarrow> real list list \<Rightarrow> real \<Rightarrow> nat \<Rightarrow> int \<Rightarrow> error + jsnum" where
  "shCoefficient factors P azimuth l m =
     (let absM = nat \<bar>m\<bar> in
      case factors l of
        None \<Rightarrow> Inl TypeError
      | Some row \<Rightarrow>
          (case row m of
             None \<Rightarrow> Inr NotFinite
           | Some nrm \<Rightarrow>
               let sh = nrm * table_get P l absM in
               Inr (Finite (if m > 0 then sh * (sqrt 2 * cos (real_of_int m * azimuth))
                            else if m < 0 then sh * (sqrt 2 * sin (real absM * azimuth))
                            else sh))))"

definition computeSphericalHarmonicsVectorized ::
  "(nat \<Rightarrow> (int \<Rightarrow> real option) option) \<Rightarrow> shCache \<Rightarrow> nat \<Rightarrow> real \<Rightarrow> real
     \<Rightarrow> (error + jsnum list) \<times> shCache" where
  "computeSphericalHarmonicsVectorized factors shCache ord azimuth elevation =
     (let cacheKey = (ord, toFixed3 azimuth, toFixed3 elevation) in
      case map_of shCache cacheKey of
        Some coeffs \<Rightarrow> (Inr coeffs, shCache)
      | None \<Rightarrow>
          (let sinEl = sin elevation;
               P = computeAssociatedLegendre ord sinEl
           in case traverse (\<lambda>(l, m). shCoefficient factors P azimuth l m)
                     (concat (map (\<lambda>l. map (\<lambda>m. (l, m)) [- int l..int l]) [0..<ord + 1]))
              of Inl e \<Rightarrow> (Inl e, shCache)
               | Inr coeffs \<Rightarrow>
                   (let evicted = (case SH_CACHE_SIZE of
                                     None \<Rightarrow> shCache
                                   | Some cap \<Rightarrow> if length shCache \<ge> cap then tl shCache
                                                 else shCache)
                    in (Inr coeffs, evicted @ [(cacheKey, coeffs)]))))"

text \<open>
  The associated Legendre function by its standard recurrence, as the specification
  describes it: the seed \<open>P(m,m)\<close>, then \<open>P(m+1,m)\<close>, then upwards in the degree.
\<close>

fun legendre_seed :: "nat \<Rightarrow> real \<Rightarrow> real" where
  "legendre_seed 0 x = 1"
| "legendre_seed (Suc m) x = - legendre_seed m x * real (2 * m + 1) * sqrt (1 - x * x)"

function associatedLegendre_spec :: "nat \<Rightarrow> nat \<Rightarrow> real \<Rightarrow> real" where
  "associatedLegendre_spec l m x =
     (if l < m then 0
      else if l = m then legendre_seed m x
      else if l = m + 1 then x * real (2 * m + 1) * legendre_seed m x
      else (real (2 * l - 1) * x * associatedLegendre_spec (l - 1) m x
            - real (l + m - 1) * associatedLegendre_spec (l - 2) m x) / real (l - m))"
  by pat_completeness auto
termination
  by (relation "measure (\<lambda>(l, m, x). l)") auto

declare associatedLegendre_spec.simps [simp del]

definition normalization_spec :: "nat \<Rightarrow> int \<Rightarrow> real" where
  "normalization_spec l m =
     sqrt (real (2 * l + 1) * fact (l - nat \<bar>m\<bar>) / (4 * pi * fact (l + nat \<bar>m\<bar>)))"

definition basis_spec :: "nat \<Rightarrow> int \<Rightarrow> real \<Rightarrow> real \<Rightarrow> real" where
  "basis_spec l m azimuth elevation =
     normalization_spec l m * associatedLegendre_spec l (nat \<bar>m\<bar>) (sin elevation)
     * (if m = 0 then 1
        else if m > 0 then sqrt 2 * cos (real_of_int m * azimuth)
        else sqrt 2 * sin (real_of_int \<bar>m\<bar> * azimuth))"

subsection \<open>The buffer pool (AudioBufferPool)\<close>

text \<open>
  The pool is an array of Float32Array objects and a WeakSet of those in use. An object
  is named by its position in the array, which never changes: the array only grows.
  A reference that names no buffer of the pool stands for a foreign object.
\<close>

record audioBufferPool =
  pool :: "jsnum list list"
  inUse :: "nat set"
  created :: nat
  reused :: nat
  currentPoolSize :: nat

definition newAudioBufferPool :: audioBufferPool where
  "newAudioBufferPool = \<lparr>pool = [], inUse = {}, created = 0, reused = 0, currentPoolSize = 0\<rparr>"

text \<open>The search loop of acquire, from position \<open>i\<close> on.\<close>

fun findFree :: "jsnum list list \<Rightarrow> nat set \<Rightarrow> nat \<Rightarrow> nat \<Rightarrow> nat option" where
  "findFree [] used sz i = None"
| "findFree (candidate # rest) used sz i =
     (if length candidate = sz \<and> i \<notin> used then Some i else findFree rest used sz (Suc i))"

definition acquire :: "audioBufferPool \<Rightarrow> nat \<Rightarrow> nat \<times> audioBufferPool" where
  "acquire p sz =
     (case findFree (pool p) (inUse p) sz 0 of
        Some i \<Rightarrow> (i, p\<lparr>reused := reused p + 1, inUse := insert i (inUse p)\<rparr>)
      | None \<Rightarrow>
          (let buffer = length (pool p);
               pool' = pool p @ [replicate sz (Finite 0)]
           in (buffer, p\<lparr>pool := pool', created := created p + 1,
                          currentPoolSize := length pool',
                          inUse := insert buffer (inUse p)\<rparr>)))"

definition release :: "audioBufferPool \<Rightarrow> nat \<Rightarrow> audioBufferPool" where
  "release p buffer =
     (if buffer \<in> inUse p
      then p\<lparr>inUse := inUse p - {buffer},
             pool := (pool p)[buffer := replicate (length (pool p ! buffer)) (Finite 0)]\<rparr>
      else p)"

definition releaseAll :: "audioBufferPool \<Rightarrow> nat list \<Rightarrow> audioBufferPool" where
  "releaseAll p buffers = fold (\<lambda>buffer q. release q buffer) buffers p"

text \<open>A store \<open>buffer[i] = v\<close> by the code that holds the buffer.\<close>

definition bufferStore :: "audioBufferPool \<Rightarrow> nat \<Rightarrow> nat \<Rightarrow> jsnum \<Rightarrow> audioBufferPool" where
  "bufferStore p buffer i v =
     (if buffer < length (pool p)
      then p\<lparr>pool := (pool p)[buffer := ta_store (pool p ! buffer) i v]\<rparr>
      else p)"

text \<open>
  What the users of the pool do, one step at a time: acquire a buffer, release one,
  or store into a buffer they hold. The runs of the pool start from the empty pool.
\<close>

datatype poolOp = Acquire nat | Release nat | Store nat nat jsnum

fun poolStep :: "audioBufferPool \<Rightarrow> poolOp \<Rightarrow> audioBufferPool" where
  "poolStep p (Acquire sz) = snd (acquire p sz)"
| "poolStep p (Release buffer) = release p buffer"
| "poolStep p (Store buffer i v) = bufferStore p buffer i v"

text \<open>A run in which every store goes to a buffer that is in use at that time.\<close>

fun disciplined :: "audioBufferPool \<Rightarrow> poolOp list \<Rightarrow> bool" where
  "disciplined p [] = True"
| "disciplined p (Store buffer i v # ops) =
     (buffer \<in> inUse p \<and> disciplined (bufferStore p buffer i v) ops)"
| "disciplined p (opn # ops) = disciplined (poolStep p opn) ops"

definition runPool :: "poolOp list \<Rightarrow> audioBufferPool" where
  "runPool ops = fold (\<lambda>opn p. poolStep p opn) ops newAudioBufferPool"

subsection \<open>The analytic HRTF (SpatialAudioEngine.getHRTF)\<close>

definition getPinnaResponse :: "real \<Rightarrow> real" where
  "getPinnaResponse elevation =
     (let elevationNorm = elevation / (pi / 2) in
      if elevation > 0 then 1.0 + 0.2 * elevationNorm
      else 1.0 + 0.1 * \<bar>elevationNorm\<bar>)"

record hrtf =
  left :: real
  right :: real
  itd :: real
  hrtf_elevation :: real

definition getHRTF :: "real \<Rightarrow> real \<Rightarrow> hrtf" where
  "getHRTF azimuth elevation =
     (let headRadius = 0.0875;
          soundSpeed = 343;
          itd' = (headRadius / soundSpeed) * (azimuth + sin azimuth);
          pinnaGain = getPinnaResponse elevation;
          distance = 1.0;
          airAbsorption = exp (- 0.0001 * distance);
          headShadowLeft = (if azimuth > 0 then 1.0 - 0.3 * sin azimuth else 1.0);
          headShadowRight = (if azimuth < 0 then 1.0 + 0.3 * sin azimuth else 1.0);
          torsoReflection = 1.0 + 0.1 * cos elevation;
          leftGain = (0.5 + 0.5 * cos (azimuth + pi / 2))
                     * pinnaGain * headShadowLeft * torsoReflection * airAbsorption;
          rightGain = (0.5 + 0.5 * cos (azimuth - pi / 2))
                      * pinnaGain * headShadowRight * torsoReflection * airAbsorption
      in \<lparr>left = max 0.01 leftGain, right = max 0.01 rightGain, itd = itd',
          hrtf_elevation = elevation\<rparr>)"

subsection \<open>Spherical harmonics of the renderer\<close>

definition factorial :: "nat \<Rightarrow> real" where
  "factorial n = (if n \<le> 1 then 1 else fold (\<lambda>i result. result * real i) [2..<n + 1] 1)"

text \<open>
  \<open>Math.pow(1 - x*x, l/2)\<close>. The only caller passes a cosine for \<open>x\<close>, so the base
  is not negative; for an odd \<open>l\<close> the half-integer power is the power of the root.
\<close>

definition powHalf :: "real \<Rightarrow> nat \<Rightarrow> real" where
  "powHalf b l = (if even l then b ^ (l div 2) else sqrt b ^ l)"

definition legendreDiagonal :: "nat \<Rightarrow> real \<Rightarrow> real" where
  "legendreDiagonal l x =
     fold (\<lambda>i result. result * real (2 * i - 1)) [1..<l + 1] ((- 1) ^ l) * powHalf (1 - x * x) l"

text \<open>associatedLegendre of the renderer; its recursive calls are the two seeds.\<close>

definition associatedLegendre :: "nat \<Rightarrow> nat \<Rightarrow> real \<Rightarrow> real" where
  "associatedLegendre l m x =
     (if l = m then legendreDiagonal l x
      else if l = m + 1 then x * real (2 * m + 1) * legendreDiagonal m x
      else
        (let Pmm = legendreDiagonal m x;
             Pm1m = x * real (2 * m + 1) * legendreDiagonal m x
         in snd (fold (\<lambda>ll (Plm_prev, Plm_curr).
                         (Plm_curr,
                          (real (2 * ll - 1) * x * Plm_curr - real (ll + m - 1) * Plm_prev)
                            / real (ll - m)))
                      [m + 2..<l + 1] (Pmm, Pm1m))))"

definition computeHighOrderHarmonic :: "nat \<Rightarrow> int \<Rightarrow> real \<Rightarrow> real \<Rightarrow> real" where
  "computeHighOrderHarmonic l m azimuth elevation =
     (let cosTheta = cos elevation;
          absM = nat \<bar>m\<bar>;
          Plm = associatedLegendre l absM cosTheta;
          nrm = sqrt (real (2 * l + 1) * factorial (l - absM) / (4 * pi * factorial (l + absM)))
      in if m = 0 then nrm * Plm
         else if m > 0 then nrm * Plm * cos (real_of_int m * azimuth)
         else nrm * Plm * sin (real absM * azimuth))"

definition realSphericalHarmonic :: "nat \<Rightarrow> int \<Rightarrow> real \<Rightarrow> real \<Rightarrow> real" where
  "realSphericalHarmonic l m azimuth elevation =
     (let cosElevation = cos elevation;
          sinElevation = sin elevation;
          cosAzimuth = cos azimuth;
          sinAzimuth = sin azimuth;
          cosEl2 = cosElevation * cosElevation;
          sinEl2 = sinElevation * sinElevation;
          sinEl3 = sinEl2 * sinElevation
      in
      if l = 0 then 1.0
      else if l = 1 then
        (if m = - 1 then sqrt (3 / (4 * pi)) * sinElevation * sinAzimuth
         else if m = 0 then sqrt (3 / (4 * pi)) * cosElevation
         else if m = 1 then sqrt (3 / (4 * pi)) * sinElevation * cosAzimuth
         else 0.0)
      else if l = 2 then
        (if m = - 2 then sqrt (15 / (16 * pi)) * sinEl2 * sin (2 * azimuth)
         else if m = - 1 then sqrt (15 / (4 * pi)) * sinElevation * cosElevation * sinAzimuth
         else if m = 0 then sqrt (5 / (16 * pi)) * (3 * cosEl2 - 1)
         else if m = 1 then sqrt (15 / (4 * pi)) * sinElevation * cosElevation * cosAzimuth
         else if m = 2 then sqrt (15 / (16 * pi)) * sinEl2 * cos (2 * azimuth)
         else 0.0)
      else if l = 3 then
        (if m = - 3 then sqrt (35 / (32 * pi)) * sinEl3 * sin (3 * azimuth)
         else if m = - 2 then sqrt (105 / (16 * pi)) * sinEl2 * cosElevation * sin (2 * azimuth)
         else if m = - 1 then sqrt (21 / (32 * pi)) * sinElevation * (5 * cosEl2 - 1) * sinAzimuth
         else if m = 0 then sqrt (7 / (16 * pi)) * cosElevation * (5 * cosEl2 - 3)
         else if m = 1 then sqrt (21 / (32 * pi)) * sinElevation * (5 * cosEl2 - 1) * cosAzimuth
         else if m = 2 then sqrt (105 / (16 * pi)) * sinEl2 * cosElevation * cos (2 * azimuth)
         else if m = 3 then sqrt (35 / (32 * pi)) * sinEl3 * cos (3 * azimuth)
         else 0.0)
      else computeHighOrderHarmonic l m azimuth elevation)"

text \<open>
  The outer loop of computeSphericalHarmonics from degree \<open>l\<close> on: it runs while
  \<open>l <= order\<close>, where \<open>order = Math.sqrt(numChannels) - 1\<close> need not be an integer.
\<close>

function shRows :: "nat \<Rightarrow> real \<Rightarrow> (nat \<Rightarrow> 'a list) \<Rightarrow> 'a list" where
  "shRows l ord row = (if real l \<le> ord then row l @ shRows (Suc l) ord row else [])"
  by pat_completeness auto
termination
  by (relation "measure (\<lambda>(l, ord, row). nat \<lceil>ord\<rceil> + 1 - l)") (auto simp: le_nat_iff, linarith)

text \<open>
  The result is \<open>new Array(numChannels)\<close>, filled from index 0 on; an element that
  was never stored stays a hole (\<open>None\<close>).
\<close>

definition computeSphericalHarmonics :: "real \<Rightarrow> real \<Rightarrow> nat \<Rightarrow> real option list" where
  "computeSphericalHarmonics azimuth elevation numChannels =
     (let ord = sqrt (real numChannels) - 1;
          stored = shRows 0 ord
                     (\<lambda>l. map (\<lambda>m. realSphericalHarmonic l m azimuth elevation) [- int l..int l])
      in map Some stored @ replicate (numChannels - length stored) None)"

subsection \<open>Virtual speakers and the binaural decode\<close>

record speaker =
  azimuth :: real
  elevation :: real
  gain :: real

text \<open>\<open>Math.atan2(y, x)\<close> on reals (the code has no negative zero to pass).\<close>

definition atan2 :: "real \<Rightarrow> real \<Rightarrow> real" where
  "atan2 y x =
     (if x > 0 then arctan (y / x)
      else if x < 0 then (if y \<ge> 0 then arctan (y / x) + pi else arctan (y / x) - pi)
      else if y > 0 then pi / 2
      else if y < 0 then - pi / 2
      else 0)"

definition getIcosahedralSpeakers :: "speaker list" where
  "getIcosahedralSpeakers =
     (let phi = (1 + sqrt 5) / 2;
          vertices =
            [(0, 1, phi), (0, - 1, phi), (0, 1, - phi), (0, - 1, - phi),
             (1, phi, 0), (- 1, phi, 0), (1, - phi, 0), (- 1, - phi, 0),
             (phi, 0, 1), (phi, 0, - 1), (- phi, 0, 1), (- phi, 0, - 1),
             (phi / 2, phi / 2, phi / 2), (- phi / 2, phi / 2, phi / 2),
             (phi / 2, - phi / 2, phi / 2), (- phi / 2, - phi / 2, phi / 2),
             (phi / 2, phi / 2, - phi / 2), (- phi / 2, phi / 2, - phi / 2),
             (phi / 2, - phi / 2, - phi / 2), (- phi / 2, - phi / 2, - phi / 2)]
      in map (\<lambda>(x, y, z).
                let nrm = sqrt (x * x + y * y + z * z) in
                \<lparr>azimuth = atan2 x z, elevation = arcsin (y / nrm),
                 gain = 1.0 / real (length vertices)\<rparr>)
             vertices)"

definition getDodecahedralSpeakers :: "speaker list" where
  "getDodecahedralSpeakers =
     map (\<lambda>i. \<lparr>azimuth = (real i * 2 * pi) / 12,
                elevation = (if i mod 2 = 0 then pi / 6 else - pi / 6),
                gain = 1.0 / 12\<rparr>)
         [0..<12]"

definition getCubeSpeakers :: "speaker list" where
  "getCubeSpeakers =
     [\<lparr>azimuth = 0, elevation = 0, gain = 0.125\<rparr>,
      \<lparr>azimuth = pi / 2, elevation = 0, gain = 0.125\<rparr>,
      \<lparr>azimuth = pi, elevation = 0, gain = 0.125\<rparr>,
      \<lparr>azimuth = - pi / 2, elevation = 0, gain = 0.125\<rparr>,
      \<lparr>azimuth = 0, elevation = pi / 4, gain = 0.125\<rparr>,
      \<lparr>azimuth = pi / 2, elevation = pi / 4, gain = 0.125\<rparr>,
      \<lparr>azimuth = pi, elevation = pi / 4, gain = 0.125\<rparr>,
      \<lparr>azimuth = - pi / 2, elevation = pi / 4, gain = 0.125\<rparr>]"

definition getVirtualSpeakerConfig :: "real \<Rightarrow> speaker list" where
  "getVirtualSpeakerConfig ord =
     (if ord \<ge> 3 then getIcosahedralSpeakers
      else if ord \<ge> 2 then getDodecahedralSpeakers
      else getCubeSpeakers)"

text \<open>A coefficient read from the array of computeSphericalHarmonics: a hole or an
  index outside of it is \<open>undefined\<close>, NaN in the product.\<close>

definition coeffLoad :: "real option list \<Rightarrow> nat \<Rightarrow> jsnum" where
  "coeffLoad cs i =
     (if i < length cs then (case cs ! i of Some c \<Rightarrow> Finite c | None \<Rightarrow> NotFinite)
      else NotFinite)"

text \<open>
  decodeToVirtualSpeakers: one pooled buffer for each speaker, filled with the decoded
  signal. The result is the list of the buffers and the pool.
\<close>

definition decodeToVirtualSpeakers ::
  "audioBufferPool \<Rightarrow> jsnum list list \<Rightarrow> speaker list \<Rightarrow> nat \<Rightarrow> nat list \<times> audioBufferPool" where
  "decodeToVirtualSpeakers p0 audio speakers numSamples =
     fold (\<lambda>spk (outputs, p).
             let (output, p1) = acquire p numSamples;
                 shCoeffs = computeSphericalHarmonics (azimuth spk) (elevation spk) (length audio);
                 p2 = fold (\<lambda>sample q.
                              let sum = fold (\<lambda>ch acc.
                                                jsnum_add acc
                                                  (jsnum_mul (ta_load (audio ! ch) sample)
                                                             (coeffLoad shCoeffs ch)))
                                             [0..<length audio] (Finite 0)
                              in bufferStore q output sample (jsnum_mul sum (Finite (gain spk))))
                           [0..<numSamples] p1
             in (outputs @ [output], p2))
          speakers ([], p0)"

text \<open>
  applySpatialHRTF: both outputs are cleared, every speaker's buffer is added to them
  with its two gains, and the buffers go back to the pool.
\<close>

definition applySpatialHRTF ::
  "audioBufferPool \<Rightarrow> nat list \<Rightarrow> speaker list \<Rightarrow> jsnum list \<Rightarrow> jsnum list \<Rightarrow> nat
     \<Rightarrow> (jsnum list \<times> jsnum list) \<times> audioBufferPool" where
  "applySpatialHRTF p speakerOutputs speakers left0 right0 numSamples =
     (let cleared = (replicate (length left0) (Finite 0), replicate (length right0) (Finite 0));
          mixed =
            fold (\<lambda>spkIdx (l, r).
                    let spk = speakers ! spkIdx;
                        output = pool p ! (speakerOutputs ! spkIdx);
                        h = getHRTF (azimuth spk) (elevation spk)
                    in fold (\<lambda>i (l, r).
                               (ta_store l i (jsnum_add (ta_load l i)
                                                (jsnum_mul (ta_load output i) (Finite (left h)))),
                                ta_store r i (jsnum_add (ta_load r i)
                                                (jsnum_mul (ta_load output i) (Finite (right h))))))
                            [0..<numSamples] (l, r))
                 [0..<length speakers] cleared
      in (mixed, releaseAll p speakerOutputs))"

definition decodeBinauralHRTF ::
  "audioBufferPool \<Rightarrow> jsnum list list \<Rightarrow> jsnum list \<Rightarrow> jsnum list \<Rightarrow> nat \<Rightarrow> real
     \<Rightarrow> (jsnum list \<times> jsnum list) \<times> audioBufferPool" where
  "decodeBinauralHRTF p audio left0 right0 numSamples ord =
     (let speakers = getVirtualSpeakerConfig ord;
          (speakerOutputs, p1) = decodeToVirtualSpeakers p audio speakers numSamples
      in applySpatialHRTF p1 speakerOutputs speakers left0 right0 numSamples)"

subsection \<open>Rendering a layer (SpatialAudioEngine.createAudioBuffer)\<close>

text \<open>
  The AudioContext is the platform's. All the code asks of it is createBuffer, which
  gives zeroed channels or raises NotSupportedError for a length of 0 or a sample rate
  it does not support; the engine's context is \<open>null\<close> (\<open>None\<close>) when the browser
  refused to create one.
\<close>

record audioContext =
  supportsRate :: "nat \<Rightarrow> bool"

definition createBuffer :: "audioContext \<Rightarrow> nat \<Rightarrow> nat \<Rightarrow> error + (jsnum list \<times> jsnum list)" where
  "createBuffer ctx len rate =
     (if len = 0 \<or> \<not> supportsRate ctx rate then Inl NotSupportedError
      else Inr (replicate len (Finite 0), replicate len (Finite 0)))"

text \<open>\<open>target.set(source)\<close>: a RangeError when the source is longer than the target.\<close>

definition ta_set :: "jsnum list \<Rightarrow> jsnum list \<Rightarrow> error + jsnum list" where
  "ta_set target source =
     (if length source > length target then Inl RangeError
      else Inr (source @ drop (length source) target))"

record stereo =
  leftChannel :: "jsnum list"
  rightChannel :: "jsnum list"

definition createAudioBuffer ::
  "audioContext option \<Rightarrow> audioBufferPool \<Rightarrow> jsnum list list \<Rightarrow> header
     \<Rightarrow> (error + stereo) \<times> audioBufferPool" where
  "createAudioBuffer ctx p audio hdr =
     (if audio = [] then (Inl InvalidAudioData, p)
      else
        let numSamples = length (audio ! 0) in
        if numSamples = 0 then (Inl NoSamples, p)
        else
          case ctx of
            None \<Rightarrow> (Inl TypeError, p)
          | Some c \<Rightarrow>
              (case createBuffer c numSamples (sample_rate hdr) of
                 Inl e \<Rightarrow> (Inl e, p)
               | Inr (left0, right0) \<Rightarrow>
                   (let ord = sqrt (real (length audio)) - 1 in
                    if length audio \<ge> 4 then
                      (let ((l, r), p') = decodeBinauralHRTF p audio left0 right0 numSamples ord
                       in (Inr \<lparr>leftChannel = l, rightChannel = r\<rparr>, p'))
                    else if length audio \<ge> 2 then
                      (bind_err (ta_set left0 (audio ! 0)) (\<lambda>l.
                       bind_err (ta_set right0 (audio ! 1)) (\<lambda>r.
                       Inr \<lparr>leftChannel = l, rightChannel = r\<rparr>)), p)
                    else
                      (bind_err (ta_set left0 (audio ! 0)) (\<lambda>l.
                       bind_err (ta_set right0 (audio ! 0)) (\<lambda>r.
                       Inr \<lparr>leftChannel = l, rightChannel = r\<rparr>)), p))))"

subsection \<open>Notions used to state the properties\<close>

text \<open>
  The invariant of the pool: every buffer in use is a buffer of the pool, and every
  buffer of the pool that is not in use holds only zeros.
\<close>

definition poolInv :: "audioBufferPool \<Rightarrow> bool" where
  "poolInv p \<longleftrightarrow>
     (\<forall>b \<in> inUse p. b < length (pool p)) \<and>
     (\<forall>b < length (pool p). b \<notin> inUse p \<longrightarrow>
        pool p ! b = replicate (length (pool p ! b)) (Finite 0))"



text \<open>
  What a successful index pass has established, entry by entry from the offset of the
  first layer: the entry starts where the previous one ended, its two length fields
  and its id bytes lie inside the buffer and are the ones the entry records, and the
  extent of the audio payload is computed from the header. Nothing is said of where
  the metadata and the payload end.
\<close>

definition bytesPerSample :: "header \<Rightarrow> nat" where
  "bytesPerSample hdr = (if bit_depth hdr = 16 then 2 else 4)"

fun indexChain :: "header \<Rightarrow> buffer \<Rightarrow> nat \<Rightarrow> layerInfo list \<Rightarrow> bool" where
  "indexChain hdr buf offset [] = True"
| "indexChain hdr buf offset (e # es) =
     (headerOffset e = offset
      \<and> getUint16 buf offset = Inr (length (layerId e))
      \<and> getUint32 buf (offset + 2) = Inr (metadataLength e)
      \<and> offset + 6 + length (layerId e) \<le> length buf
      \<and> dataOffset e = offset + 6 + length (layerId e) + metadataLength e
      \<and> dataSize e = n_channels hdr * n_samples hdr * bytesPerSample hdr
      \<and> indexChain hdr buf (dataOffset e + dataSize e) es)"

text \<open>
  Two example files with the same header, which declares one layer of one channel with
  one 16-bit sample. The first, of 32 bytes, has a layer with an empty id and no
  metadata whose 2 payload bytes are missing. The second is complete: its layer has the
  id \<open>v\<close>, the metadata text \<open>x\<close> and the sample 32767.
\<close>

definition truncatedFile :: buffer where
  "truncatedFile =
     [0x53, 0x48, 0x41, 0x43, 1, 0, 0, 0, 1, 0, 0x80, 0xBB, 0, 0, 16, 0, 0, 0, 1, 0, 0, 0,
      1, 0, 0, 0,
      0, 0, 0, 0, 0, 0]"

definition exampleHeader :: header where
  "exampleHeader =
     \<lparr>version = 1, order = 0, n_channels = 1, sample_rate = 48000, bit_depth = 16,
      n_samples = 1, n_layers = 1, normalization = 0\<rparr>"




section \<open>Properties\<close>

subsection \<open>Rotation matrix at zero angles\<close>

lemma rotation_order0_identity:
  "computeRotationMatrix 0 yaw pitch roll = identityMatrix 1"
  by (simp add: computeRotationMatrix_def identityMatrix_def ta_store_def)

lemma length_ta_store [simp]: "length (ta_store xs i v) = length xs"
  by (simp add: ta_store_def)

lemma nth_ta_store: "ta_store xs i v ! j = (if i = j \<and> i < length xs then v else xs ! j)"
  by (simp add: ta_store_def)

lemma length_fold_ta_store [simp]:
  "length (fold (\<lambda>i mat. ta_store mat (f i) (g i)) is xs) = length xs"
  by (induction "is" arbitrary: xs) simp_all

lemma concat_nth_rows:
  "\<forall>xs \<in> set xss. length xs = k \<Longrightarrow> i < length xss \<Longrightarrow> j < k
   \<Longrightarrow> concat xss ! (i * k + j) = xss ! i ! j"
proof (induction xss arbitrary: i)
  case Nil
  then show ?case by simp
next
  case (Cons xs xss)
  show ?case
  proof (cases i)
    case 0
    then show ?thesis using Cons.prems by (simp add: nth_append)
  next
    case (Suc i')
    then show ?thesis using Cons.prems Cons.IH[of i'] by (simp add: nth_append)
  qed
qed

lemma identityMatrix_nth:
  "i < n \<Longrightarrow> j < n \<Longrightarrow> identityMatrix n ! (i * n + j) = (if i = j then 1 else 0)"
  unfolding identityMatrix_def
  by (subst concat_nth_rows[where k = n]) auto

lemma rotation_order2_off_diagonal:
  "computeRotationMatrix 2 0 0 0 ! 5 = 1 \<and> identityMatrix 9 ! 5 = 0"
proof
  show "computeRotationMatrix 2 0 0 0 ! 5 = 1"
    by (simp add: computeRotationMatrix_def applyFirstOrderRotation_def
        applySecondOrderRotation_def nth_ta_store Let_def)
  show "identityMatrix 9 ! 5 = 0"
    using identityMatrix_nth[of 0 9 5] by simp
qed

lemma rotation_order3_off_diagonal:
  "computeRotationMatrix 3 0 0 0 ! 5 = 1 \<and> identityMatrix 16 ! 5 = 0"
proof
  show "computeRotationMatrix 3 0 0 0 ! 5 = 1"
    by (simp add: computeRotationMatrix_def applyFirstOrderRotation_def
        applySecondOrderRotation_def applyThirdOrderRotation_def nth_ta_store Let_def)
  show "identityMatrix 16 ! 5 = 0"
    using identityMatrix_nth[of 0 16 5] by simp
qed

text \<open>
  C3. The specification asks that the rotation matrix for yaw = pitch = roll = 0 is the
  identity for the orders 0 to 3. For order 1 the computed 4 x 4 matrix is the identity
  but for the entry of row 2 and column 3 (index 11), where applyFirstOrderRotation
  stores \<open>cos yaw = 1\<close>: the matrix is not the identity.
\<close>

theorem rotation_order1_zero_angles:
  "computeRotationMatrix 1 0 0 0 = (identityMatrix 4)[11 := 1]
   \<and> computeRotationMatrix 1 0 0 0 \<noteq> identityMatrix 4"
  by (simp add: computeRotationMatrix_def applyFirstOrderRotation_def identityMatrix_def
        ta_store_def upt_rec numeral_eq_Suc)

subsection \<open>Bounds of the HRTF gains\<close>

lemma base_bounds: "0 \<le> 0.5 + 0.5 * cos (t::real)" "0.5 + 0.5 * cos (t::real) \<le> 1"
  using cos_ge_minus_one[of t] cos_le_one[of t] by linarith+

lemma pinna_aux:
  fixes t :: real
  assumes "\<bar>t\<bar> \<le> 1"
  shows "0 \<le> (if c then 1.0 + 0.2 * t else 1.0 + 0.1 * \<bar>t\<bar>)"
    and "(if c then 1.0 + 0.2 * t else 1.0 + 0.1 * \<bar>t\<bar>) \<le> 1.2"
  using assms by (auto simp: abs_le_iff)

lemma pinna_bounds:
  assumes "- (pi / 2) \<le> el" "el \<le> pi / 2"
  shows "0 \<le> getPinnaResponse el" "getPinnaResponse el \<le> 1.2"
proof -
  define t where "t = el / (pi / 2)"
  have p: "0 < pi / 2" by simp
  have "- 1 \<le> t" "t \<le> 1"
    unfolding t_def using assms p by (simp_all add: field_simps)
  then have n: "\<bar>t\<bar> \<le> 1" by (simp add: abs_le_iff)
  have g: "getPinnaResponse el = (if el > 0 then 1.0 + 0.2 * t else 1.0 + 0.1 * \<bar>t\<bar>)"
    by (simp only: getPinnaResponse_def Let_def t_def)
  show "0 \<le> getPinnaResponse el" unfolding g by (rule pinna_aux(1)[OF n])
  show "getPinnaResponse el \<le> 1.2" unfolding g by (rule pinna_aux(2)[OF n])
qed

lemma shadow_bounds:
  "0 \<le> (if az > 0 then 1.0 - 0.3 * sin az else (1.0::real))"
  "(if az > 0 then 1.0 - 0.3 * sin az else (1.0::real)) \<le> 1.3"
  "0 \<le> (if az < 0 then 1.0 + 0.3 * sin az else (1.0::real))"
  "(if az < 0 then 1.0 + 0.3 * sin az else (1.0::real)) \<le> 1.3"
  using sin_ge_minus_one[of az] sin_le_one[of az] by (simp_all, linarith+)

lemma torso_bounds: "0 \<le> 1.0 + 0.1 * cos (el::real)" "1.0 + 0.1 * cos (el::real) \<le> 1.1"
  using cos_ge_minus_one[of el] cos_le_one[of el] by linarith+

lemma prod5_bound:
  fixes a b c d e :: real
  assumes "0 \<le> a" "a \<le> 1" "0 \<le> b" "b \<le> 1.2" "0 \<le> c" "c \<le> 1.3" "0 \<le> d" "d \<le> 1.1"
    "0 \<le> e" "e \<le> 1"
  shows "a * b * c * d * e \<le> 1.716"
proof -
  have 1: "a * b \<le> 1 * 1.2" by (rule mult_mono) (use assms in simp_all)
  have n1: "0 \<le> a * b" using assms by simp
  have 2: "a * b * c \<le> 1 * 1.2 * 1.3" by (rule mult_mono) (use assms 1 n1 in simp_all)
  have n2: "0 \<le> a * b * c" using assms by simp
  have 3: "a * b * c * d \<le> 1 * 1.2 * 1.3 * 1.1" by (rule mult_mono) (use assms 2 n2 in simp_all)
  have n3: "0 \<le> a * b * c * d" using assms by simp
  have 4: "a * b * c * d * e \<le> 1 * 1.2 * 1.3 * 1.1 * 1"
    by (rule mult_mono) (use assms 3 n3 in simp_all)
  then show ?thesis by simp
qed

lemma air_lower: "0.9 \<le> exp (- 0.0001 * (1.0::real))"
proof -
  have "1 + (- 0.0001 * 1.0) \<le> exp (- 0.0001 * (1.0::real))" by (rule exp_ge_add_one_self)
  then show ?thesis by simp
qed

lemma left_unbounded: "B < left (getHRTF (- (pi / 2)) (5 * pi * (\<bar>B\<bar> + 1)))"
proof -
  define k where "k = \<bar>B\<bar> + 1"
  have k: "1 \<le> k" "B < k" unfolding k_def by simp_all
  have el: "0 < 5 * pi * k" using k by simp
  have pin: "getPinnaResponse (5 * pi * k) = 1 + 2 * k"
    using el by (simp add: getPinnaResponse_def Let_def)
  have t: "0.9 \<le> 1.0 + 0.1 * cos (5 * pi * k)"
    using cos_ge_minus_one[of "5 * pi * k"] by linarith
  have a: "0.9 \<le> exp (- 0.0001 * (1.0::real))" by (rule air_lower)
  have p: "1 \<le> 1 + 2 * k" using k by simp
  have 1: "(1 + 2 * k) * 0.9 \<le> (1 + 2 * k) * (1.0 + 0.1 * cos (5 * pi * k))"
    using t p by (intro mult_left_mono) simp_all
  have 2: "(1 + 2 * k) * 0.9 * 0.9
           \<le> (1 + 2 * k) * (1.0 + 0.1 * cos (5 * pi * k)) * exp (- 0.0001 * 1.0)"
    by (rule mult_mono) (use 1 a p in simp_all)
  have 3: "k < (1 + 2 * k) * 0.9 * 0.9" using k by simp
  have g: "left (getHRTF (- (pi / 2)) (5 * pi * k))
           = max 0.01 ((1 + 2 * k) * (1.0 + 0.1 * cos (5 * pi * k)) * exp (- 0.0001 * 1.0))"
    using pin by (simp add: getHRTF_def Let_def)
  have "B < (1 + 2 * k) * (1.0 + 0.1 * cos (5 * pi * k)) * exp (- 0.0001 * 1.0)"
    using k 2 3 by linarith
  then show ?thesis unfolding k_def[symmetric] g by simp
qed

text \<open>
  C8, as stated: both gains of getHRTF are at least 0.01 and at most some fixed bound,
  for all azimuths and elevations. There is no such bound: the pinna term grows
  linearly with the elevation.
\<close>

theorem hrtf_unbounded:
  "\<not> (\<exists>B. \<forall>az el. 0.01 \<le> left (getHRTF az el) \<and> left (getHRTF az el) \<le> B
                    \<and> 0.01 \<le> right (getHRTF az el) \<and> right (getHRTF az el) \<le> B)"
proof
  assume "\<exists>B. \<forall>az el. 0.01 \<le> left (getHRTF az el) \<and> left (getHRTF az el) \<le> B
                    \<and> 0.01 \<le> right (getHRTF az el) \<and> right (getHRTF az el) \<le> B"
  then obtain B where b: "\<forall>az el. left (getHRTF az el) \<le> B" by blast
  then have "left (getHRTF (- (pi / 2)) (5 * pi * (\<bar>B\<bar> + 1))) \<le> B" by blast
  with left_unbounded[of B] show False by simp
qed

text \<open>
  C8, amended: both gains are at least 0.01 for every azimuth and elevation, and at most
  1.716 for every azimuth and every elevation between \<open>-\<pi>/2\<close> and \<open>\<pi>/2\<close>.
\<close>

theorem hrtf_bounds:
  "0.01 \<le> left (getHRTF az el) \<and> 0.01 \<le> right (getHRTF az el)
   \<and> (- (pi / 2) \<le> el \<and> el \<le> pi / 2 \<longrightarrow>
        left (getHRTF az el) \<le> 1.716 \<and> right (getHRTF az el) \<le> 1.716)"
proof (intro conjI impI)
  show "0.01 \<le> left (getHRTF az el)" by (simp add: getHRTF_def Let_def)
  show "0.01 \<le> right (getHRTF az el)" by (simp add: getHRTF_def Let_def)
next
  assume r: "- (pi / 2) \<le> el \<and> el \<le> pi / 2"
  have e: "0 \<le> exp (- 0.0001 * (1.0::real))" "exp (- 0.0001 * (1.0::real)) \<le> 1" by simp_all
  have L: "(0.5 + 0.5 * cos (az + pi / 2)) * getPinnaResponse el
             * (if az > 0 then 1.0 - 0.3 * sin az else 1.0) * (1.0 + 0.1 * cos el)
             * exp (- 0.0001 * 1.0) \<le> 1.716"
    using r by (intro prod5_bound base_bounds pinna_bounds shadow_bounds torso_bounds e) auto
  have R: "(0.5 + 0.5 * cos (az - pi / 2)) * getPinnaResponse el
             * (if az < 0 then 1.0 + 0.3 * sin az else 1.0) * (1.0 + 0.1 * cos el)
             * exp (- 0.0001 * 1.0) \<le> 1.716"
    using r by (intro prod5_bound base_bounds pinna_bounds shadow_bounds torso_bounds e) auto
  show "left (getHRTF az el) \<le> 1.716"
    unfolding getHRTF_def Let_def using L by simp
  show "right (getHRTF az el) \<le> 1.716"
    unfolding getHRTF_def Let_def using R by simp
qed

theorem hrtf_bounds_witness:
  "- (pi / 2) \<le> (0::real) \<and> (0::real) \<le> pi / 2
   \<and> 0.01 \<le> left (getHRTF 0 0) \<and> left (getHRTF 0 0) \<le> 1.716
   \<and> 0.01 \<le> right (getHRTF 0 0) \<and> right (getHRTF 0 0) \<le> 1.716"
  using hrtf_bounds [of 0 0] by simp

subsection \<open>The buffer pool\<close>

lemma findFree_Some:
  "findFree bs used sz i = Some k \<Longrightarrow>
     i \<le> k \<and> k < i + length bs \<and> length (bs ! (k - i)) = sz \<and> k \<notin> used"
proof (induction bs arbitrary: i)
  case Nil
  then show ?case by simp
next
  case (Cons b bs)
  show ?case
  proof (cases "length b = sz \<and> i \<notin> used")
    case True
    with Cons.prems show ?thesis by simp
  next
    case False
    with Cons.prems have "findFree bs used sz (Suc i) = Some k" by auto
    from Cons.IH[OF this] show ?thesis by (auto simp: Suc_diff_le)
  qed
qed

lemma findFree_None:
  "findFree bs used sz i = None \<longleftrightarrow> (\<forall>j < length bs. \<not> (length (bs ! j) = sz \<and> i + j \<notin> used))"
proof (induction bs arbitrary: i)
  case Nil
  then show ?case by simp
next
  case (Cons b bs)
  show ?case
  proof (cases "length b = sz \<and> i \<notin> used")
    case True
    then show ?thesis by auto
  next
    case False
    then have "findFree (b # bs) used sz i = findFree bs used sz (Suc i)" by auto
    also have "\<dots> = None \<longleftrightarrow> (\<forall>j < length bs. \<not> (length (bs ! j) = sz \<and> Suc i + j \<notin> used))"
      by (rule Cons.IH)
    also have "\<dots> \<longleftrightarrow> (\<forall>j < length (b # bs). \<not> (length ((b # bs) ! j) = sz \<and> i + j \<notin> used))"
      using False by (auto simp: less_Suc_eq_0_disj)
    finally show ?thesis .
  qed
qed

lemma poolInv_new: "poolInv newAudioBufferPool"
  by (simp add: poolInv_def newAudioBufferPool_def)

lemma poolInv_acquire: "poolInv p \<Longrightarrow> poolInv (snd (acquire p sz))"
proof (cases "findFree (pool p) (inUse p) sz 0")
  case None
  assume "poolInv p"
  then show ?thesis using None
    by (auto simp: poolInv_def acquire_def Let_def nth_append less_Suc_eq)
next
  case (Some k)
  assume "poolInv p"
  then show ?thesis using Some findFree_Some[OF Some]
    by (auto simp: poolInv_def acquire_def)
qed

lemma poolInv_release: "poolInv p \<Longrightarrow> poolInv (release p b)"
  by (auto simp: poolInv_def release_def nth_list_update)

lemma poolInv_store: "poolInv p \<Longrightarrow> b \<in> inUse p \<Longrightarrow> poolInv (bufferStore p b i v)"
  by (auto simp: poolInv_def bufferStore_def nth_list_update)

lemma poolInv_run:
  "poolInv p \<Longrightarrow> disciplined p ops \<Longrightarrow> poolInv (fold (\<lambda>opn q. poolStep q opn) ops p)"
proof (induction ops arbitrary: p)
  case Nil
  then show ?case by simp
next
  case (Cons opn ops)
  show ?case
  proof (cases opn)
    case (Acquire sz)
    with Cons.prems have "poolInv (poolStep p opn)" "disciplined (poolStep p opn) ops"
      by (simp_all add: poolInv_acquire)
    from Cons.IH[OF this] show ?thesis by simp
  next
    case (Release b)
    with Cons.prems have "poolInv (poolStep p opn)" "disciplined (poolStep p opn) ops"
      by (simp_all add: poolInv_release)
    from Cons.IH[OF this] show ?thesis by simp
  next
    case (Store b i v)
    with Cons.prems have "poolInv (poolStep p opn)" "disciplined (poolStep p opn) ops"
      by (simp_all add: poolInv_store)
    from Cons.IH[OF this] show ?thesis by simp
  qed
qed

lemma acquire_spec:
  assumes "poolInv p"
  shows "case acquire p sz of (b, p') \<Rightarrow>
           b < length (pool p') \<and> length (pool p' ! b) = sz
           \<and> b \<notin> inUse p \<and> inUse p' = insert b (inUse p)
           \<and> pool p' ! b = replicate sz (Finite 0)
           \<and> (if \<exists>i < length (pool p). length (pool p ! i) = sz \<and> i \<notin> inUse p
               then b < length (pool p) \<and> pool p' = pool p
               else b = length (pool p) \<and> pool p' = pool p @ [replicate sz (Finite 0)])"
proof (cases "findFree (pool p) (inUse p) sz 0")
  case None
  then have n: "\<not> (\<exists>i < length (pool p). length (pool p ! i) = sz \<and> i \<notin> inUse p)"
    by (simp add: findFree_None)
  have "length (pool p) \<notin> inUse p" using assms by (auto simp: poolInv_def)
  then show ?thesis using None n by (simp add: acquire_def Let_def)
next
  case (Some k)
  from findFree_Some[OF Some] have k: "k < length (pool p)" "length (pool p ! k) = sz" "k \<notin> inUse p"
    by simp_all
  then have e: "\<exists>i < length (pool p). length (pool p ! i) = sz \<and> i \<notin> inUse p" by blast
  have "pool p ! k = replicate sz (Finite 0)" using assms k by (auto simp: poolInv_def)
  then show ?thesis using Some k e by (simp add: acquire_def)
qed

text \<open>
  C9. After any run of acquire, release and stores into buffers that are in use,
  \<open>acquire(size)\<close> returns a buffer of the pool of exactly that length, which was
  not in use before and is in use afterwards, and which holds only zeros; it is a
  buffer the pool already had when one of that length is free, and otherwise a new one
  at the end of the pool. \<open>release\<close> of a buffer in use takes it out of use and
  fills it with zeros.
\<close>

theorem pool_contract:
  assumes "disciplined newAudioBufferPool ops"
  shows "(case acquire (runPool ops) sz of (b, p') \<Rightarrow>
           b < length (pool p') \<and> length (pool p' ! b) = sz
           \<and> b \<notin> inUse (runPool ops) \<and> inUse p' = insert b (inUse (runPool ops))
           \<and> pool p' ! b = replicate sz (Finite 0)
           \<and> (if \<exists>i < length (pool (runPool ops)).
                    length (pool (runPool ops) ! i) = sz \<and> i \<notin> inUse (runPool ops)
               then b < length (pool (runPool ops)) \<and> pool p' = pool (runPool ops)
               else b = length (pool (runPool ops))
                    \<and> pool p' = pool (runPool ops) @ [replicate sz (Finite 0)]))
         \<and> (\<forall>b \<in> inUse (runPool ops).
               b \<notin> inUse (release (runPool ops) b)
               \<and> pool (release (runPool ops) b) ! b
                   = replicate (length (pool (runPool ops) ! b)) (Finite 0))"
proof
  have inv: "poolInv (runPool ops)"
    unfolding runPool_def by (rule poolInv_run[OF poolInv_new assms])
  show "case acquire (runPool ops) sz of (b, p') \<Rightarrow>
           b < length (pool p') \<and> length (pool p' ! b) = sz
           \<and> b \<notin> inUse (runPool ops) \<and> inUse p' = insert b (inUse (runPool ops))
           \<and> pool p' ! b = replicate sz (Finite 0)
           \<and> (if \<exists>i < length (pool (runPool ops)).
                    length (pool (runPool ops) ! i) = sz \<and> i \<notin> inUse (runPool ops)
               then b < length (pool (runPool ops)) \<and> pool p' = pool (runPool ops)
               else b = length (pool (runPool ops))
                    \<and> pool p' = pool (runPool ops) @ [replicate sz (Finite 0)])"
    by (rule acquire_spec[OF inv])
  show "\<forall>b \<in> inUse (runPool ops).
               b \<notin> inUse (release (runPool ops) b)
               \<and> pool (release (runPool ops) b) ! b
                   = replicate (length (pool (runPool ops) ! b)) (Finite 0)"
    using inv by (auto simp: release_def poolInv_def)
qed

theorem pool_contract_witness:
  "disciplined newAudioBufferPool [Acquire 2, Store 0 1 (Finite 5), Release 0, Acquire 3]
   \<and> runPool [Acquire 2, Store 0 1 (Finite 5), Release 0, Acquire 3]
       = \<lparr>pool = [[Finite 0, Finite 0], [Finite 0, Finite 0, Finite 0]], inUse = {1},
          created = 2, reused = 0, currentPoolSize = 2\<rparr>
   \<and> fst (acquire (runPool [Acquire 2, Store 0 1 (Finite 5), Release 0, Acquire 3]) 2) = 0
   \<and> pool (snd (acquire (runPool [Acquire 2, Store 0 1 (Finite 5), Release 0, Acquire 3]) 2)) ! 0
       = [Finite 0, Finite 0]"
proof -
  have d: "disciplined newAudioBufferPool [Acquire 2, Store 0 1 (Finite 5), Release 0, Acquire 3]"
    by (simp add: newAudioBufferPool_def acquire_def release_def bufferStore_def ta_store_def)
  have r: "runPool [Acquire 2, Store 0 1 (Finite 5), Release 0, Acquire 3]
       = \<lparr>pool = [[Finite 0, Finite 0], [Finite 0, Finite 0, Finite 0]], inUse = {1},
          created = 2, reused = 0, currentPoolSize = 2\<rparr>"
    by (simp add: runPool_def newAudioBufferPool_def acquire_def release_def bufferStore_def
          ta_store_def numeral_eq_Suc)
  show ?thesis
    using d r pool_contract [OF d, of 2]
    by (simp add: acquire_def split: prod.splits)
qed

subsection \<open>Decoding 16-bit samples\<close>














subsection \<open>The index pass and truncated buffers\<close>

lemma getUint16_error: "getUint16 buf off = Inl e \<Longrightarrow> e = RangeError"
  by (auto simp: getUint16_def split: if_splits)

lemma getUint32_error: "getUint32 buf off = Inl e \<Longrightarrow> e = RangeError"
  by (auto simp: getUint32_def split: if_splits)

lemma Uint8Array_view_error: "Uint8Array_view buf off len = Inl e \<Longrightarrow> e = RangeError"
  by (auto simp: Uint8Array_view_def split: if_splits)

lemma Uint8Array_view_Inr:
  "Uint8Array_view buf off len = Inr bs \<Longrightarrow> off + len \<le> length buf \<and> length bs = len"
  by (auto simp: Uint8Array_view_def split: if_splits)

lemma bind_err_Inl:
  "bind_err r f = Inl e \<Longrightarrow> r = Inl e \<or> (\<exists>v. r = Inr v \<and> f v = Inl e)"
  by (cases r) (simp_all add: bind_err_def)

lemma bind_err_Inr:
  "bind_err r f = Inr y \<Longrightarrow> \<exists>v. r = Inr v \<and> f v = Inr y"
  by (cases r) (simp_all add: bind_err_def)

lemma length_TextDecoder_decode [simp]: "length (TextDecoder_decode bs) = length bs"
  by (simp add: TextDecoder_decode_def)

lemma loop_error:
  "buildLayerIndex_loop k hdr buf off acc = Inl e \<Longrightarrow> e = RangeError"
proof (induction k arbitrary: off acc)
  case 0
  then show ?case by simp
next
  case (Suc k)
  from Suc.prems show ?case
    by (auto simp: Let_def dest!: bind_err_Inl
             dest: getUint16_error getUint32_error Uint8Array_view_error Suc.IH)
qed

lemma loop_ok:
  "buildLayerIndex_loop k hdr buf off acc = Inr idx \<Longrightarrow>
     \<exists>new. idx = acc @ new \<and> length new = k \<and> indexChain hdr buf off new"
proof (induction k arbitrary: off acc)
  case 0
  then show ?case by simp
next
  case (Suc k)
  from Suc.prems obtain idLength metaLength idBytes where
    a: "getUint16 buf off = Inr idLength"
    and b: "getUint32 buf (off + 2) = Inr metaLength"
    and c: "Uint8Array_view buf (off + 2 + 4) idLength = Inr idBytes"
    and d: "buildLayerIndex_loop k hdr buf
              (off + 2 + 4 + idLength + metaLength
               + n_channels hdr * n_samples hdr * (if bit_depth hdr = 16 then 2 else 4))
              (acc @ [\<lparr>layerId = TextDecoder_decode idBytes,
                       headerOffset = off + 2 + 4 + idLength + metaLength - metaLength - idLength - 6,
                       dataOffset = off + 2 + 4 + idLength + metaLength,
                       dataSize = n_channels hdr * n_samples hdr * (if bit_depth hdr = 16 then 2 else 4),
                       metadataLength = metaLength\<rparr>]) = Inr idx"
    by (auto simp: Let_def dest!: bind_err_Inr)
  define entry where "entry = \<lparr>layerId = TextDecoder_decode idBytes,
                       headerOffset = off + 2 + 4 + idLength + metaLength - metaLength - idLength - 6,
                       dataOffset = off + 2 + 4 + idLength + metaLength,
                       dataSize = n_channels hdr * n_samples hdr * (if bit_depth hdr = 16 then 2 else 4),
                       metadataLength = metaLength\<rparr>"
  from Suc.IH[OF d] obtain new where
    n: "idx = (acc @ [entry]) @ new" "length new = k"
       "indexChain hdr buf (off + 2 + 4 + idLength + metaLength
               + n_channels hdr * n_samples hdr * (if bit_depth hdr = 16 then 2 else 4)) new"
    unfolding entry_def by blast
  from Uint8Array_view_Inr[OF c] have f: "off + 6 + idLength \<le> length buf" "length idBytes = idLength"
    by simp_all
  have ch: "indexChain hdr buf off (entry # new)"
    using n(3) f a b by (simp add: entry_def bytesPerSample_def)
  show ?case
  proof (intro exI conjI)
    show "idx = acc @ entry # new" using n(1) by simp
    show "length (entry # new) = Suc k" using n(2) by simp
    show "indexChain hdr buf off (entry # new)" by (rule ch)
  qed
qed

lemma traverse_error:
  "\<forall>x e. f x = Inl e \<longrightarrow> e = RangeError \<Longrightarrow> traverse f xs = Inl e \<Longrightarrow> e = RangeError"
proof (induction xs arbitrary: e)
  case Nil
  then show ?case by simp
next
  case (Cons x xs)
  show ?case
  proof (cases "f x")
    case (Inl e')
    with Cons.prems show ?thesis by auto
  next
    case (Inr v)
    show ?thesis
    proof (cases "traverse f xs")
      case (Inl e')
      with Inr Cons.prems(2) have "e' = e" by simp
      with Inl Cons.IH[OF Cons.prems(1)] show ?thesis by blast
    next
      case (Inr vs)
      with \<open>f x = Inr v\<close> Cons.prems(2) show ?thesis by simp
    qed
  qed
qed

lemma traverse_fails:
  "x \<in> set xs \<Longrightarrow> f x = Inl RangeError \<Longrightarrow> \<forall>y e. f y = Inl e \<longrightarrow> e = RangeError
   \<Longrightarrow> traverse f xs = Inl RangeError"
proof (induction xs)
  case Nil
  then show ?case by simp
next
  case (Cons y ys)
  show ?case
  proof (cases "f y")
    case (Inl e)
    with Cons.prems(3) show ?thesis by auto
  next
    case (Inr v)
    with Cons.prems have "x \<in> set ys" by auto
    from Cons.IH[OF this Cons.prems(2,3)] Inr show ?thesis by simp
  qed
qed

lemma readSample16_error: "readSample16 buf pos = Inl e \<Longrightarrow> e = RangeError"
  by (auto simp: readSample16_def getUint8_def getInt8_def bind_err_def Let_def split: if_splits)

lemma readSample16_fails: "length buf < pos + 2 \<Longrightarrow> readSample16 buf pos = Inl RangeError"
  by (auto simp: readSample16_def getUint8_def getInt8_def bind_err_def Let_def)

lemma getFloat32_error: "getFloat32 buf pos = Inl e \<Longrightarrow> e = RangeError"
  by (auto simp: getFloat32_def split: if_splits)

lemma getFloat32_fails: "length buf < pos + 4 \<Longrightarrow> getFloat32 buf pos = Inl RangeError"
  by (auto simp: getFloat32_def)

lemma traverse2_error:
  assumes "\<forall>ch s e. f ch s = Inl e \<longrightarrow> e = RangeError"
    and "traverse (\<lambda>ch. traverse (f ch) ss) chs = Inl e"
  shows "e = RangeError"
proof -
  have "\<forall>ch e. traverse (f ch) ss = Inl e \<longrightarrow> e = RangeError"
    using assms(1) traverse_error[of "f _" ss] by blast
  from traverse_error[OF this assms(2)] show ?thesis .
qed

lemma traverse2_fails:
  assumes "\<forall>ch s e. f ch s = Inl e \<longrightarrow> e = RangeError"
    and "ch \<in> set chs" "s \<in> set ss" "f ch s = Inl RangeError"
  shows "traverse (\<lambda>ch. traverse (f ch) ss) chs = Inl RangeError"
proof -
  have r: "\<forall>ch e. traverse (f ch) ss = Inl e \<longrightarrow> e = RangeError"
    using assms(1) traverse_error[of "f _" ss] by blast
  have "traverse (f ch) ss = Inl RangeError"
    using assms(1,3,4) by (intro traverse_fails[where f = "f ch" and x = s and xs = ss]) blast+
  with assms(2) r show ?thesis
    by (intro traverse_fails[where f = "\<lambda>ch. traverse (f ch) ss" and x = ch and xs = chs]) blast+
qed

lemma readAudio_16_odd:
  "off mod 2 \<noteq> 0 \<Longrightarrow>
   readAudioDataOptimized buf off nch ns 16
   = traverse (\<lambda>ch. traverse (\<lambda>s. readSample16 buf (off + (ch * ns + s) * 2)) [0..<ns]) [0..<nch]"
  by (simp add: readAudioDataOptimized_def)

lemma readAudio_16_even:
  "off mod 2 = 0 \<Longrightarrow>
   readAudioDataOptimized buf off nch ns 16
   = bind_err (Int16Array_view buf off (nch * ns)) (\<lambda>int16Data.
       Inr (map (\<lambda>ch. map (\<lambda>s. Finite (real_of_int (int16Data ! (ch * ns + s)) / 32767)) [0..<ns])
                [0..<nch]))"
  by (simp add: readAudioDataOptimized_def)

lemma readAudio_32_odd:
  "bd \<noteq> 16 \<Longrightarrow> off mod 4 \<noteq> 0 \<Longrightarrow>
   readAudioDataOptimized buf off nch ns bd
   = traverse (\<lambda>ch. traverse (\<lambda>s. getFloat32 buf (off + (ch * ns + s) * 4)) [0..<ns]) [0..<nch]"
  by (simp add: readAudioDataOptimized_def)

lemma readAudio_32_even:
  "bd \<noteq> 16 \<Longrightarrow> off mod 4 = 0 \<Longrightarrow>
   readAudioDataOptimized buf off nch ns bd
   = bind_err (Float32Array_view buf off (nch * ns)) (\<lambda>floatData.
       Inr (map (\<lambda>ch. map (\<lambda>s. floatData ! (ch * ns + s)) [0..<ns]) [0..<nch]))"
  by (simp add: readAudioDataOptimized_def)

lemma Int16Array_view_error: "Int16Array_view buf off n = Inl e \<Longrightarrow> e = RangeError"
  by (simp add: Int16Array_view_def split: if_splits)

lemma Float32Array_view_error: "Float32Array_view buf off n = Inl e \<Longrightarrow> e = RangeError"
  by (simp add: Float32Array_view_def split: if_splits)

lemma readAudio_error:
  assumes "readAudioDataOptimized buf off nch ns bd = Inl e"
  shows "e = RangeError"
proof (cases "bd = 16")
  case True
  show ?thesis
  proof (cases "off mod 2 = 0")
    case True
    with \<open>bd = 16\<close> assms show ?thesis
      by (auto simp: readAudio_16_even dest!: bind_err_Inl dest: Int16Array_view_error)
  next
    case False
    from assms
    have "traverse (\<lambda>ch. traverse (\<lambda>s. readSample16 buf (off + (ch * ns + s) * 2)) [0..<ns])
            [0..<nch] = Inl e"
      unfolding \<open>bd = 16\<close> readAudio_16_odd[OF False] .
    then show ?thesis
      by (rule traverse2_error[rotated]) (blast dest: readSample16_error)
  qed
next
  case False
  show ?thesis
  proof (cases "off mod 4 = 0")
    case True
    with \<open>bd \<noteq> 16\<close> assms show ?thesis
      by (auto simp: readAudio_32_even dest!: bind_err_Inl dest: Float32Array_view_error)
  next
    case False
    from assms
    have "traverse (\<lambda>ch. traverse (\<lambda>s. getFloat32 buf (off + (ch * ns + s) * 4)) [0..<ns])
            [0..<nch] = Inl e"
      unfolding readAudio_32_odd[OF \<open>bd \<noteq> 16\<close> False] .
    then show ?thesis
      by (rule traverse2_error[rotated]) (blast dest: getFloat32_error)
  qed
qed

lemma last_sample:
  fixes nch ns k :: nat
  assumes "0 < nch" "0 < ns"
  shows "((nch - 1) * ns + (ns - 1)) * k + k = nch * ns * k"
proof -
  have "(nch - 1) * ns + (ns - 1) + 1 = (nch - 1) * ns + ns" using assms by simp
  also have "\<dots> = nch * ns" using assms by (cases nch) simp_all
  finally have "((nch - 1) * ns + (ns - 1) + 1) * k = nch * ns * k" by (rule arg_cong)
  then show ?thesis by (simp only: add_mult_distrib mult_1)
qed

lemma readAudio_truncated:
  assumes "off \<le> length buf" "length buf < off + nch * ns * (if bd = 16 then 2 else 4)"
  shows "readAudioDataOptimized buf off nch ns bd = Inl RangeError"
proof -
  from assms have pos: "0 < nch" "0 < ns" by (auto intro: Nat.gr0I)
  then have m: "nch - 1 \<in> set [0..<nch]" "ns - 1 \<in> set [0..<ns]" by simp_all
  define X where "X = (nch - 1) * ns + (ns - 1)"
  show ?thesis
  proof (cases "bd = 16")
    case True
    then have lt: "length buf < off + nch * ns * 2" using assms(2) by simp
    show ?thesis
    proof (cases "off mod 2 = 0")
      case True
      with lt \<open>bd = 16\<close> show ?thesis
        by (simp add: readAudio_16_even Int16Array_view_def bind_err_def mult.commute)
    next
      case False
      have "X * 2 + 2 = nch * ns * 2" unfolding X_def by (rule last_sample[OF pos])
      with lt have "length buf < off + X * 2 + 2" by linarith
      then have "readSample16 buf (off + X * 2) = Inl RangeError" by (rule readSample16_fails)
      then have "traverse (\<lambda>ch. traverse (\<lambda>s. readSample16 buf (off + (ch * ns + s) * 2)) [0..<ns])
                   [0..<nch] = Inl RangeError"
        unfolding X_def
        by (intro traverse2_fails[where ch = "nch - 1" and s = "ns - 1"] m)
           (blast dest: readSample16_error)
      then show ?thesis unfolding \<open>bd = 16\<close> readAudio_16_odd[OF False] .
    qed
  next
    case False
    then have lt: "length buf < off + nch * ns * 4" using assms(2) by simp
    show ?thesis
    proof (cases "off mod 4 = 0")
      case True
      with lt \<open>bd \<noteq> 16\<close> show ?thesis
        by (simp add: readAudio_32_even Float32Array_view_def bind_err_def mult.commute)
    next
      case False
      have "X * 4 + 4 = nch * ns * 4" unfolding X_def by (rule last_sample[OF pos])
      with lt have "length buf < off + X * 4 + 4" by linarith
      then have "getFloat32 buf (off + X * 4) = Inl RangeError" by (rule getFloat32_fails)
      then have "traverse (\<lambda>ch. traverse (\<lambda>s. getFloat32 buf (off + (ch * ns + s) * 4)) [0..<ns])
                   [0..<nch] = Inl RangeError"
        unfolding X_def
        by (intro traverse2_fails[where ch = "nch - 1" and s = "ns - 1"] m)
           (blast dest: getFloat32_error)
      then show ?thesis unfolding readAudio_32_odd[OF \<open>bd \<noteq> 16\<close> False] .
    qed
  qed
qed

lemma readLayer_error:
  assumes "readLayerOptimized P hdr buf info = Inl e"
  shows "e = RangeError"
  using assms unfolding readLayerOptimized_def Let_def
  by (auto dest!: bind_err_Inl
           dest: getUint16_error Uint8Array_view_error readAudio_error)

lemma indexChain_member:
  "indexChain hdr buf off idx \<Longrightarrow> e \<in> set idx \<Longrightarrow>
     getUint16 buf (headerOffset e) = Inr (length (layerId e))
     \<and> dataOffset e = headerOffset e + 6 + length (layerId e) + metadataLength e
     \<and> dataSize e = n_channels hdr * n_samples hdr * bytesPerSample hdr"
  by (induction idx arbitrary: off) auto

lemma readLayer_truncated:
  assumes "getUint16 buf (headerOffset info) = Inr (length (layerId info))"
    and "dataOffset info = headerOffset info + 6 + length (layerId info) + metadataLength info"
    and "dataSize info = n_channels hdr * n_samples hdr * bytesPerSample hdr"
    and "length buf < dataOffset info + dataSize info"
  shows "readLayerOptimized P hdr buf info = Inl RangeError"
proof (cases "dataOffset info \<le> length buf")
  case True
  have "readAudioDataOptimized buf (dataOffset info) (n_channels hdr) (n_samples hdr) (bit_depth hdr)
        = Inl RangeError"
    using True assms(3,4) by (intro readAudio_truncated) (simp_all add: bytesPerSample_def)
  then show ?thesis
    unfolding readLayerOptimized_def Let_def assms(1)
    by (auto simp: bind_err_def Uint8Array_view_def)
next
  case False
  then have "Uint8Array_view buf (headerOffset info + 2 + 4 + length (layerId info))
               (metadataLength info) = Inl RangeError"
    using assms(2) by (simp add: Uint8Array_view_def)
  then show ?thesis
    unfolding readLayerOptimized_def Let_def assms(1)
    by (auto simp: bind_err_def Uint8Array_view_def)
qed

lemma readLayers_truncated:
  assumes "indexChain hdr buf off idx" "e \<in> set idx" "length buf < dataOffset e + dataSize e"
  shows "readLayersOptimized P hdr buf idx = Inl RangeError"
proof -
  from indexChain_member[OF assms(1,2)] assms(3)
  have "readLayerOptimized P hdr buf e = Inl RangeError"
    by (intro readLayer_truncated) simp_all
  then have "traverse (readLayerOptimized P hdr buf) idx = Inl RangeError"
    using assms(2) by (intro traverse_fails[where x = e]) (auto dest: readLayer_error)
  then show ?thesis by (simp add: readLayersOptimized_def bind_err_def)
qed

lemma truncated_index:
  "buildLayerIndex exampleHeader truncatedFile
   = Inr [\<lparr>layerId = [], headerOffset = 26, dataOffset = 32, dataSize = 2,
            metadataLength = 0\<rparr>]"
  by (simp add: buildLayerIndex_def truncatedFile_def exampleHeader_def
        bind_err_def Uint8Array_view_def getUint16_def getUint32_def TextDecoder_decode_def)

lemma truncated_header: "readHeader truncatedFile = Inr exampleHeader"
  by (simp add: readHeader_def truncatedFile_def exampleHeader_def bind_err_def
        Uint8Array_view_def MAGIC_def getUint16_def getUint32_def)

text \<open>
  C2, as stated: the index pass fails whenever a computed offset or offset + size
  exceeds the buffer length. For the 32-byte file above the payload of the only layer
  would end at byte 34, and the index pass succeeds.
\<close>

theorem index_pass_accepts_truncated:
  "readHeader truncatedFile = Inr exampleHeader
   \<and> buildLayerIndex exampleHeader truncatedFile
       = Inr [\<lparr>layerId = [], headerOffset = 26, dataOffset = 32, dataSize = 2,
                metadataLength = 0\<rparr>]
   \<and> length truncatedFile < 32 + 2"
  using truncated_header truncated_index by (simp add: truncatedFile_def)

text \<open>
  C2, amended: the only failure of the index pass is the RangeError of a read outside
  the buffer; when it succeeds there is one entry for each declared layer and the
  length fields and id bytes of every layer lie inside the buffer. A metadata or audio
  extent beyond the end of the buffer is not found by the index pass but when the
  layers are read: decode then fails with the RangeError.
\<close>

theorem index_pass_checks:
  "(buildLayerIndex hdr buf = Inl e \<longrightarrow> e = RangeError)
   \<and> (buildLayerIndex hdr buf = Inr idx \<longrightarrow>
        length idx = n_layers hdr \<and> indexChain hdr buf 26 idx
        \<and> (readHeader buf = Inr hdr
             \<and> (\<exists>info \<in> set idx. length buf < dataOffset info + dataSize info)
            \<longrightarrow> decode JSON_parse buf = Inl (DecodeError RangeError)))"
proof (intro conjI impI)
  assume "buildLayerIndex hdr buf = Inl e"
  then show "e = RangeError" unfolding buildLayerIndex_def by (rule loop_error)
next
  assume a: "buildLayerIndex hdr buf = Inr idx"
  from loop_ok[OF a[unfolded buildLayerIndex_def]]
  show l: "length idx = n_layers hdr" and c: "indexChain hdr buf 26 idx" by auto
  assume b: "readHeader buf = Inr hdr
             \<and> (\<exists>info \<in> set idx. length buf < dataOffset info + dataSize info)"
  then obtain info where "info \<in> set idx" "length buf < dataOffset info + dataSize info"
    by blast
  from readLayers_truncated[OF c this]
  have "readLayersOptimized JSON_parse hdr buf idx = Inl RangeError" .
  then show "decode JSON_parse buf = Inl (DecodeError RangeError)"
    using a b by (simp add: decode_def decode_body_def bind_err_def)
qed

theorem index_pass_checks_witness:
  "buildLayerIndex exampleHeader (take 30 truncatedFile) = Inl RangeError
   \<and> buildLayerIndex exampleHeader truncatedFile
       = Inr [\<lparr>layerId = [], headerOffset = 26, dataOffset = 32, dataSize = 2,
                metadataLength = 0\<rparr>]
   \<and> n_layers exampleHeader = 1
   \<and> indexChain exampleHeader truncatedFile 26
         [\<lparr>layerId = [], headerOffset = 26, dataOffset = 32, dataSize = 2,
           metadataLength = 0\<rparr>]
   \<and> readHeader truncatedFile = Inr exampleHeader
   \<and> decode (\<lambda>s. None) truncatedFile = Inl (DecodeError RangeError)"
proof -
  have f: "buildLayerIndex exampleHeader (take 30 truncatedFile) = Inl RangeError"
    by (simp add: buildLayerIndex_def truncatedFile_def exampleHeader_def
          bind_err_def Uint8Array_view_def getUint16_def getUint32_def)
  have l: "length truncatedFile = 32" by (simp add: truncatedFile_def)
  show ?thesis
    using f l truncated_header truncated_index
      index_pass_checks [of exampleHeader truncatedFile RangeError
        "[\<lparr>layerId = [], headerOffset = 26, dataOffset = 32, dataSize = 2,
           metadataLength = 0\<rparr>]" "\<lambda>s. None"]
    by (simp add: exampleHeader_def)
qed

subsection \<open>Metadata that does not parse\<close>





lemma pythonToJson_example:
  "pythonToJson ''{'a': (1, True), 'b': None, 'c': False}''
   = ''{\"a\": [1, true], \"b\": null, \"c\": false}''"
  by (simp add: pythonToJson_def)




subsection \<open>Rendering a layer\<close>

lemma render_mono:
  assumes "supportsRate c (sample_rate hdr)" "audio ! 0 \<noteq> []" "length audio = 1"
  shows "createAudioBuffer (Some c) p audio hdr
         = (Inr \<lparr>leftChannel = audio ! 0, rightChannel = audio ! 0\<rparr>, p)"
proof -
  from assms(3) have "audio \<noteq> []" by auto
  then show ?thesis using assms
    by (simp add: createAudioBuffer_def createBuffer_def Let_def bind_err_def ta_set_def)
qed

lemma render_stereo:
  assumes "supportsRate c (sample_rate hdr)" "audio ! 0 \<noteq> []"
    "length audio = 2 \<or> length audio = 3" "length (audio ! 1) = length (audio ! 0)"
  shows "createAudioBuffer (Some c) p audio hdr
         = (Inr \<lparr>leftChannel = audio ! 0, rightChannel = audio ! 1\<rparr>, p)"
proof -
  from assms(3) have "audio \<noteq> []" "length audio \<ge> 2" "\<not> length audio \<ge> 4" by auto
  then show ?thesis using assms(1,2,4)
    by (simp add: createAudioBuffer_def createBuffer_def Let_def bind_err_def ta_set_def)
qed

lemma render_ambisonic:
  assumes "supportsRate c (sample_rate hdr)" "audio ! 0 \<noteq> []" "4 \<le> length audio"
  shows "\<exists>out. fst (createAudioBuffer (Some c) p audio hdr) = Inr out"
proof -
  from assms(3) have n: "audio \<noteq> []" by auto
  obtain l r p' where d: "decodeBinauralHRTF p audio (replicate (length (audio ! 0)) (Finite 0))
      (replicate (length (audio ! 0)) (Finite 0)) (length (audio ! 0)) (sqrt (real (length audio)) - 1)
      = ((l, r), p')"
    by (metis surj_pair)
  show ?thesis using n assms d
    by (simp add: createAudioBuffer_def createBuffer_def Let_def)
qed



text \<open>
  C6, as stated: rendering fails with a channel-count error whenever the channel count
  is not \<open>(order + 1)\<^sup>2\<close>. A layer of two channels, which is no such square, is
  rendered.
\<close>

theorem render_two_channels:
  "createAudioBuffer (Some \<lparr>supportsRate = (\<lambda>r. True)\<rparr>) newAudioBufferPool
     [[Finite 1], [Finite 2]] exampleHeader
   = (Inr \<lparr>leftChannel = [Finite 1], rightChannel = [Finite 2]\<rparr>, newAudioBufferPool)
   \<and> (\<forall>k :: nat. (k + 1) * (k + 1) \<noteq> length [[Finite 1], [Finite (2::real)]])"
proof
  show "createAudioBuffer (Some \<lparr>supportsRate = (\<lambda>r. True)\<rparr>) newAudioBufferPool
     [[Finite 1], [Finite 2]] exampleHeader
   = (Inr \<lparr>leftChannel = [Finite 1], rightChannel = [Finite 2]\<rparr>, newAudioBufferPool)"
    by (simp add: createAudioBuffer_def createBuffer_def Let_def bind_err_def ta_set_def
          exampleHeader_def)
  show "\<forall>k :: nat. (k + 1) * (k + 1) \<noteq> length [[Finite 1], [Finite (2::real)]]"
  proof
    fix k :: nat
    show "(k + 1) * (k + 1) \<noteq> length [[Finite 1], [Finite (2::real)]]"
      by (cases k) simp_all
  qed
qed

text \<open>
  C6, amended: rendering fails with the error "Invalid audio data format" when the
  layer has no channel and with "Audio data has no samples" when its first channel is
  empty, and then there is no output and the pool is as before. The channel count is
  not checked: with an audio context that supports the sample rate, every layer whose
  channels have one length that is not 0 is rendered, whatever their number.
\<close>

theorem render_validation:
  "(audio = [] \<longrightarrow> createAudioBuffer ctx p audio hdr = (Inl InvalidAudioData, p))
   \<and> (audio \<noteq> [] \<and> audio ! 0 = [] \<longrightarrow>
        createAudioBuffer ctx p audio hdr = (Inl NoSamples, p))
   \<and> (audio \<noteq> [] \<and> audio ! 0 \<noteq> [] \<and> ctx = Some c \<and> supportsRate c (sample_rate hdr)
        \<and> (\<forall>ch \<in> set audio. length ch = length (audio ! 0))
       \<longrightarrow> (\<exists>out. fst (createAudioBuffer ctx p audio hdr) = Inr out))"
proof (intro conjI impI)
  assume "audio = []"
  then show "createAudioBuffer ctx p audio hdr = (Inl InvalidAudioData, p)"
    by (simp add: createAudioBuffer_def)
next
  assume "audio \<noteq> [] \<and> audio ! 0 = []"
  then show "createAudioBuffer ctx p audio hdr = (Inl NoSamples, p)"
    by (simp add: createAudioBuffer_def)
next
  assume a: "audio \<noteq> [] \<and> audio ! 0 \<noteq> [] \<and> ctx = Some c \<and> supportsRate c (sample_rate hdr)
        \<and> (\<forall>ch \<in> set audio. length ch = length (audio ! 0))"
  then have s: "supportsRate c (sample_rate hdr)" and z: "audio ! 0 \<noteq> []" and c: "ctx = Some c"
    by simp_all
  from a have "0 < length audio" by simp
  then have "4 \<le> length audio \<or> length audio = 1 \<or> length audio = 2 \<or> length audio = 3"
    by linarith
  then consider "4 \<le> length audio" | "length audio = 1" | "length audio = 2 \<or> length audio = 3"
    by blast
  then show "\<exists>out. fst (createAudioBuffer ctx p audio hdr) = Inr out"
  proof cases
    case 1
    from render_ambisonic[OF s z 1] c show ?thesis by simp
  next
    case 2
    from render_mono[OF s z 2] c show ?thesis by simp
  next
    case 3
    then have "1 < length audio" by auto
    then have "audio ! 1 \<in> set audio" by simp
    with a have "length (audio ! 1) = length (audio ! 0)" by blast
    from render_stereo[OF s z 3 this] c show ?thesis by simp
  qed
qed

theorem render_validation_witness:
  "createAudioBuffer None newAudioBufferPool [] exampleHeader
   = (Inl InvalidAudioData, newAudioBufferPool)
   \<and> createAudioBuffer None newAudioBufferPool [[]] exampleHeader
       = (Inl NoSamples, newAudioBufferPool)
   \<and> (\<exists>out. fst (createAudioBuffer (Some \<lparr>supportsRate = (\<lambda>r. True)\<rparr>) newAudioBufferPool
                    [[Finite 1], [Finite 1], [Finite 1], [Finite 1], [Finite 1]] exampleHeader)
             = Inr out)"
  using render_validation [where audio = "[]" and ctx = None and p = newAudioBufferPool
      and hdr = exampleHeader]
    render_validation [where audio = "[[]]" and ctx = None and p = newAudioBufferPool
      and hdr = exampleHeader]
    render_validation [where audio = "[[Finite 1], [Finite 1], [Finite 1], [Finite 1], [Finite 1]]"
      and ctx = "Some \<lparr>supportsRate = (\<lambda>r. True)\<rparr>"
      and c = "\<lparr>supportsRate = (\<lambda>r. True)\<rparr>"
      and hdr = exampleHeader and p = newAudioBufferPool]
  by simp

end
